theory Spec2Isabelle
  imports Complex_Main "HOL-Library.Multiset"
begin

section \<open>The invoice service of app/routes/invoices.py\<close>

text \<open>
  The four route handlers \<open>create_invoice\<close>, \<open>list_invoices\<close>, \<open>get_invoice\<close> and
  \<open>delete_invoice\<close> are embedded as functions over an explicit database state. Each SQL
  statement of the source becomes a list operation on the table it touches, in the order the
  source executes them.

  Numbers: the columns \<open>price\<close>, \<open>unit_price\<close>, \<open>tax\<close> and \<open>total\<close> are Python floats in the
  source. They are idealised here as exact rationals (every float is one); rounding is not
  modelled, so an equation between amounts below is the exact counterpart of an equation that
  holds up to floating-point tolerance in the running service.

  Dates are carried as their ISO text, the form in which they are stored and returned.
\<close>

subsection \<open>Request and response models\<close>

type_synonym date = string

record InvoiceItem =
  product_id :: int
  quantity :: int

record InvoiceCreate =
  invoice_no :: string
  issue_date :: date
  due_date :: date
  client_id :: int
  items :: "InvoiceItem list"
  tax :: rat



record InvoiceItemResponse =
  item_id :: int
  item_product_id :: int
  item_product_name :: string
  item_quantity :: int
  item_unit_price :: rat
  item_subtotal :: rat

record ClientResponse =
  cr_id :: int
  cr_name :: string
  cr_address :: string
  cr_company_registration_no :: string

record InvoiceResponse =
  r_id :: int
  r_invoice_no :: string
  r_issue_date :: date
  r_due_date :: date
  r_client :: ClientResponse
  r_items :: "InvoiceItemResponse list"
  r_tax :: rat
  r_subtotal :: rat
  r_tax_amount :: rat
  r_total :: rat


text \<open>The dictionaries collected in \<open>validated_items\<close> by the first loop of
  \<open>create_invoice\<close>.\<close>

record ValidatedItem =
  v_product_id :: int
  v_product_name :: string
  v_quantity :: int
  v_unit_price :: rat
  v_subtotal :: rat

subsection \<open>Errors\<close>

text \<open>
  Every \<open>raise HTTPException(status_code, detail)\<close> of the source is a value
  \<open>HTTPException status detail\<close>. The detail messages are kept structured:
  \<open>ClientNotFound n\<close> stands for "Client with id n not found", \<open>InvoiceNoExists no\<close> for
  "Invoice number no already exists", \<open>ProductNotFound n\<close> for "Product with id n not found",
  \<open>InvoiceNotFound\<close> for "Invoice not found" and \<open>DatabaseError\<close> for the message built by
  the \<open>except Exception\<close> clause.
\<close>

datatype detail =
  ClientNotFound int
| InvoiceNoExists string
| ProductNotFound int
| InvoiceNotFound
| DatabaseError

datatype error = HTTPException (status_code: nat) (detail: detail)

subsection \<open>The database\<close>

text \<open>The rows of the four tables, with the column names the SQL of the source uses. The
  field prefixes are the table aliases of the source's queries (\<open>c\<close>, \<open>p\<close>, \<open>i\<close>, \<open>ii\<close>).\<close>

record clients_row =
  c_id :: int
  c_name :: string
  c_address :: string
  c_company_registration_no :: string

record products_row =
  p_id :: int
  p_name :: string
  p_price :: rat

record invoices_row =
  i_id :: int
  i_invoice_no :: string
  i_issue_date :: date
  i_due_date :: date
  i_client_id :: int
  i_tax :: rat
  i_total :: rat
  i_created_at :: int

record invoice_items_row =
  ii_id :: int
  ii_invoice_id :: int
  ii_product_id :: int
  ii_quantity :: int
  ii_unit_price :: rat

text \<open>A table is the list of its rows in insertion order.\<close>

record db =
  clients :: "clients_row list"
  products :: "products_row list"
  invoices :: "invoices_row list"
  invoice_items :: "invoice_items_row list"

text \<open>
  Modelled from the spec: the schema (module \<open>app.database\<close>) is not under src/. Section 3 of
  the specification gives every table an \<open>id\<close>; the source reads the id of a new row from
  \<open>cursor.lastrowid\<close>. The id given to an inserted row is one more than the largest id of the
  table, and 1 in an empty table.
\<close>

definition next_rowid :: "int list \<Rightarrow> int" where
  "next_rowid ids = fold max ids 0 + 1"

text \<open>
  The handlers pass Python integers, which are unbounded, to \<open>cursor.execute\<close> as the
  parameters of their statements. The store holds signed 64-bit integers: binding an integer
  outside that range raises in the driver, and the \<open>except Exception\<close> clause of the handler
  turns the exception into status 500.
\<close>

definition sql_int :: "int \<Rightarrow> bool" where
  "sql_int k = (- (2 ^ 63) \<le> k \<and> k < 2 ^ 63)"

text \<open>
  \<open>product["price"] * item.quantity\<close> multiplies a float by a Python integer. The integer is
  converted to a float first, and the conversion raises \<open>OverflowError\<close> when the integer
  rounds beyond the largest double, that is from magnitude \<open>2 ^ 1024 - 2 ^ 970\<close> on.
\<close>

definition fits_float :: "int \<Rightarrow> bool" where
  "fits_float q = (\<bar>q\<bar> < 2 ^ 1024 - 2 ^ 970)"

text \<open>
  Modelled from the spec: the constraints of the schema that the specification states. The
  \<open>id\<close> of each table identifies its row (primary key) and is a 64-bit integer, and every
  item row belongs to an invoice row (the foreign key \<open>invoice_id\<close> of section 3). Clients
  and products of existing invoices are not required to exist: section 3 lets them vanish
  after creation.
\<close>

definition wf_db :: "db \<Rightarrow> bool" where
  "wf_db s =
     (distinct (map c_id (clients s)) \<and>
      distinct (map p_id (products s)) \<and>
      distinct (map i_id (invoices s)) \<and>
      distinct (map ii_id (invoice_items s)) \<and>
      list_all (\<lambda>ii. ii_invoice_id ii \<in> set (map i_id (invoices s))) (invoice_items s) \<and>
      list_all (\<lambda>c. sql_int (c_id c)) (clients s) \<and>
      list_all (\<lambda>p. sql_int (p_id p)) (products s) \<and>
      list_all (\<lambda>i. sql_int (i_id i)) (invoices s))"

text \<open>
  Modelled from the spec: \<open>get_db\<close> (module \<open>app.database\<close>) is not under src/. Sections 4.1
  and 5 of the specification: each operation executes as one transaction, and partial writes
  must not be observable. A handler body is modelled as a function from the state at the start
  of the transaction to its outcome paired with the state its statements have produced so far;
  \<open>with_get_db\<close> commits that state when the body returns and restores the initial state when
  the body raises.
\<close>

definition with_get_db :: "db \<Rightarrow> (error + 'a) \<times> db \<Rightarrow> (error + 'a) \<times> db" where
  "with_get_db s outcome =
     (case outcome of
        (Inl e, _) \<Rightarrow> (Inl e, s)
      | (Inr r, s') \<Rightarrow> (Inr r, s'))"

subsection \<open>get_invoice\<close>

text \<open>The query \<open>SELECT ... FROM invoices i JOIN clients c ON i.client_id = c.id WHERE i.id = ?\<close>.\<close>

definition select_invoice_with_client :: "db \<Rightarrow> int \<Rightarrow> (invoices_row \<times> clients_row) list" where
  "select_invoice_with_client s invoice_id =
     [(i, c). i \<leftarrow> invoices s, c \<leftarrow> clients s, i_client_id i = c_id c, i_id i = invoice_id]"

text \<open>The query \<open>SELECT ... FROM invoice_items ii JOIN products p ON ii.product_id = p.id
  WHERE ii.invoice_id = ?\<close>.\<close>

definition select_items_with_product :: "db \<Rightarrow> int \<Rightarrow> (invoice_items_row \<times> products_row) list" where
  "select_items_with_product s invoice_id =
     [(ii, p). ii \<leftarrow> invoice_items s, p \<leftarrow> products s, ii_product_id ii = p_id p,
               ii_invoice_id ii = invoice_id]"

text \<open>The loop \<open>for item_row in items_rows\<close>, with its two accumulators \<open>items\<close> and
  \<open>subtotal\<close>.\<close>

fun build_items ::
  "(invoice_items_row \<times> products_row) list \<Rightarrow> InvoiceItemResponse list \<Rightarrow> rat \<Rightarrow>
   InvoiceItemResponse list \<times> rat" where
  "build_items [] acc subtotal = (acc, subtotal)"
| "build_items ((ii, p) # items_rows) acc subtotal =
     (let item_subtotal = ii_unit_price ii * of_int (ii_quantity ii)
      in build_items items_rows
           (acc @ [\<lparr>item_id = ii_id ii, item_product_id = ii_product_id ii,
                    item_product_name = p_name p, item_quantity = ii_quantity ii,
                    item_unit_price = ii_unit_price ii, item_subtotal = item_subtotal\<rparr>])
           (subtotal + item_subtotal))"

definition get_invoice :: "db \<Rightarrow> int \<Rightarrow> error + InvoiceResponse" where
  "get_invoice s invoice_id =
     (if \<not> sql_int invoice_id then Inl (HTTPException 500 DatabaseError)
      else case select_invoice_with_client s invoice_id of
        [] \<Rightarrow> Inl (HTTPException 404 InvoiceNotFound)
      | (i, c) # _ \<Rightarrow>
          (case build_items (select_items_with_product s invoice_id) [] 0 of
             (its, subtotal) \<Rightarrow>
               let tax_amount = subtotal * (i_tax i / 100)
               in Inr \<lparr>r_id = i_id i, r_invoice_no = i_invoice_no i,
                       r_issue_date = i_issue_date i, r_due_date = i_due_date i,
                       r_client = \<lparr>cr_id = c_id c, cr_name = c_name c,
                                   cr_address = c_address c,
                                   cr_company_registration_no = c_company_registration_no c\<rparr>,
                       r_items = its, r_tax = i_tax i, r_subtotal = subtotal,
                       r_tax_amount = tax_amount, r_total = i_total i\<rparr>))"

subsection \<open>create_invoice\<close>

text \<open>\<open>SELECT id, name, price FROM products WHERE id = ?\<close> followed by \<open>fetchone()\<close>.\<close>

definition select_product :: "db \<Rightarrow> int \<Rightarrow> products_row option" where
  "select_product s pid = find (\<lambda>p. p_id p = pid) (products s)"

text \<open>The first loop, in input order. For each item the product id is bound to the query
  (status 500 when it is no 64-bit integer), the product is looked up (404 when there is
  none) and its price is multiplied by the quantity (status 500 when the quantity does not
  convert to a float); otherwise \<open>subtotal\<close> and \<open>validated_items\<close> grow.\<close>

fun validate_items ::
  "db \<Rightarrow> InvoiceItem list \<Rightarrow> rat \<Rightarrow> ValidatedItem list \<Rightarrow> error + (rat \<times> ValidatedItem list)" where
  "validate_items s [] subtotal validated_items = Inr (subtotal, validated_items)"
| "validate_items s (item # rest) subtotal validated_items =
     (if \<not> sql_int (product_id item) then Inl (HTTPException 500 DatabaseError)
      else case select_product s (product_id item) of
        None \<Rightarrow> Inl (HTTPException 404 (ProductNotFound (product_id item)))
      | Some product \<Rightarrow>
          if \<not> fits_float (quantity item) then Inl (HTTPException 500 DatabaseError)
          else
            (let item_subtotal = p_price product * of_int (quantity item)
             in validate_items s rest (subtotal + item_subtotal)
                  (validated_items @
                     [\<lparr>v_product_id = product_id item, v_product_name = p_name product,
                       v_quantity = quantity item, v_unit_price = p_price product,
                       v_subtotal = item_subtotal\<rparr>])))"

text \<open>The second loop: the price is read again and one row is inserted per item. Indexing the
  result of \<open>fetchone()\<close> raises a \<open>TypeError\<close> when there is no such product, and the
  INSERT raises when the invoice id, the product id or the quantity is no 64-bit integer;
  the \<open>except Exception\<close> clause turns either into status 500.\<close>

fun insert_items :: "db \<Rightarrow> int \<Rightarrow> InvoiceItem list \<Rightarrow> (error + unit) \<times> db" where
  "insert_items s invoice_id [] = (Inr (), s)"
| "insert_items s invoice_id (item # rest) =
     (if \<not> sql_int (product_id item) then (Inl (HTTPException 500 DatabaseError), s)
      else case select_product s (product_id item) of
        None \<Rightarrow> (Inl (HTTPException 500 DatabaseError), s)
      | Some product \<Rightarrow>
          if \<not> (sql_int invoice_id \<and> sql_int (quantity item))
          then (Inl (HTTPException 500 DatabaseError), s)
          else
            insert_items
              (s\<lparr>invoice_items := invoice_items s @
                   [\<lparr>ii_id = next_rowid (map ii_id (invoice_items s)),
                     ii_invoice_id = invoice_id, ii_product_id = product_id item,
                     ii_quantity = quantity item, ii_unit_price = p_price product\<rparr>]\<rparr>)
              invoice_id rest)"

text \<open>
  The body of the \<open>with get_db()\<close> block. The argument \<open>now\<close> is the value the store gives to
  the column \<open>created_at\<close>, which the INSERT of the source leaves to the schema's default.

  Modelled from the spec: the call \<open>get_invoice(invoice_id)\<close> at the end opens \<open>get_db()\<close>
  again, inside the block. Section 4.1 says that create returns the full invoice view, so
  the inner read sees the rows the block has just inserted.
\<close>

definition create_invoice_body :: "db \<Rightarrow> InvoiceCreate \<Rightarrow> int \<Rightarrow> (error + InvoiceResponse) \<times> db" where
  "create_invoice_body s invoice now =
     (if \<not> sql_int (client_id invoice) then (Inl (HTTPException 500 DatabaseError), s)
      else if find (\<lambda>c. c_id c = client_id invoice) (clients s) = None
      then (Inl (HTTPException 404 (ClientNotFound (client_id invoice))), s)
      else if find (\<lambda>i. i_invoice_no i = invoice_no invoice) (invoices s) \<noteq> None
      then (Inl (HTTPException 400 (InvoiceNoExists (invoice_no invoice))), s)
      else
        (case validate_items s (items invoice) 0 [] of
           Inl e \<Rightarrow> (Inl e, s)
         | Inr (subtotal, validated_items) \<Rightarrow>
             (let tax_amount = subtotal * (tax invoice / 100);
                  total = subtotal + tax_amount;
                  invoice_id = next_rowid (map i_id (invoices s));
                  s1 = s\<lparr>invoices := invoices s @
                          [\<lparr>i_id = invoice_id, i_invoice_no = invoice_no invoice,
                            i_issue_date = issue_date invoice, i_due_date = due_date invoice,
                            i_client_id = client_id invoice, i_tax = tax invoice,
                            i_total = total, i_created_at = now\<rparr>]\<rparr>
              in (case insert_items s1 invoice_id (items invoice) of
                    (Inl e, s2) \<Rightarrow> (Inl e, s2)
                  | (Inr _, s2) \<Rightarrow>
                      (case get_invoice s2 invoice_id of
                         Inl e \<Rightarrow> (Inl e, s2)
                       | Inr response \<Rightarrow> (Inr response, s2))))))"

definition create_invoice :: "db \<Rightarrow> InvoiceCreate \<Rightarrow> int \<Rightarrow> (error + InvoiceResponse) \<times> db" where
  "create_invoice s invoice now = with_get_db s (create_invoice_body s invoice now)"

text \<open>The status of the HTTP response: the route's \<open>status_code=201\<close> on a normal return,
  the status of the exception otherwise.\<close>

definition create_invoice_status :: "error + InvoiceResponse \<Rightarrow> nat" where
  "create_invoice_status outcome = (case outcome of Inl e \<Rightarrow> status_code e | Inr _ \<Rightarrow> 201)"

subsection \<open>list_invoices\<close>




subsection \<open>delete_invoice\<close>

definition delete_invoice_body :: "db \<Rightarrow> int \<Rightarrow> (error + unit) \<times> db" where
  "delete_invoice_body s invoice_id =
     (if \<not> sql_int invoice_id then (Inl (HTTPException 500 DatabaseError), s)
      else if find (\<lambda>i. i_id i = invoice_id) (invoices s) = None
      then (Inl (HTTPException 404 InvoiceNotFound), s)
      else
        (let s1 = s\<lparr>invoice_items := filter (\<lambda>ii. ii_invoice_id ii \<noteq> invoice_id) (invoice_items s)\<rparr>;
             s2 = s1\<lparr>invoices := filter (\<lambda>i. i_id i \<noteq> invoice_id) (invoices s1)\<rparr>
         in (Inr (), s2)))"

definition delete_invoice :: "db \<Rightarrow> int \<Rightarrow> (error + unit) \<times> db" where
  "delete_invoice s invoice_id = with_get_db s (delete_invoice_body s invoice_id)"

subsection \<open>Changes made to products outside this service\<close>

text \<open>
  Modelled from the spec: products are written by code that is not under src/ (section 3:
  a product is read-only for this service and may change later). \<open>change_product\<close> is such
  a change: the product \<open>pid\<close> gets a new name and a new price; no other table is touched.
\<close>

definition change_product :: "db \<Rightarrow> int \<Rightarrow> string \<Rightarrow> rat \<Rightarrow> db" where
  "change_product s pid name price =
     s\<lparr>products := map (\<lambda>p. if p_id p = pid then p\<lparr>p_name := name, p_price := price\<rparr> else p)
                       (products s)\<rparr>"

subsection \<open>Example data\<close>

text \<open>The example of section 8 of the specification: client Acme, product Widget at 10.0,
  and the request for three Widgets at 10 percent tax.\<close>

definition ex_db :: db where
  "ex_db =
     \<lparr>clients = [\<lparr>c_id = 1, c_name = ''Acme'', c_address = ''1 Main St'',
                  c_company_registration_no = ''REG-1''\<rparr>],
      products = [\<lparr>p_id = 1, p_name = ''Widget'', p_price = 10\<rparr>],
      invoices = [], invoice_items = []\<rparr>"

definition ex_invoice :: InvoiceCreate where
  "ex_invoice =
     \<lparr>invoice_no = ''INV-1'', issue_date = ''2024-01-01'', due_date = ''2024-02-01'',
      client_id = 1, items = [\<lparr>product_id = 1, quantity = 3\<rparr>], tax = 10\<rparr>"

definition ex_response :: InvoiceResponse where
  "ex_response =
     \<lparr>r_id = 1, r_invoice_no = ''INV-1'', r_issue_date = ''2024-01-01'',
      r_due_date = ''2024-02-01'',
      r_client = \<lparr>cr_id = 1, cr_name = ''Acme'', cr_address = ''1 Main St'',
                  cr_company_registration_no = ''REG-1''\<rparr>,
      r_items = [\<lparr>item_id = 1, item_product_id = 1, item_product_name = ''Widget'',
                  item_quantity = 3, item_unit_price = 10, item_subtotal = 30\<rparr>],
      r_tax = 10, r_subtotal = 30, r_tax_amount = 3, r_total = 33\<rparr>"

text \<open>The database after the example request has been served at time 5.\<close>

definition ex_db1 :: db where
  "ex_db1 =
     ex_db\<lparr>invoices := [\<lparr>i_id = 1, i_invoice_no = ''INV-1'', i_issue_date = ''2024-01-01'',
                          i_due_date = ''2024-02-01'', i_client_id = 1, i_tax = 10,
                          i_total = 33, i_created_at = 5\<rparr>],
            invoice_items := [\<lparr>ii_id = 1, ii_invoice_id = 1, ii_product_id = 1,
                               ii_quantity = 3, ii_unit_price = 10\<rparr>]\<rparr>"

text \<open>A database whose invoice row carries a \<open>total\<close> of 100, while its single item row
  amounts to 30 and its tax rate is 10 percent.\<close>

definition odd_total_db :: db where
  "odd_total_db =
     ex_db1\<lparr>invoices := [\<lparr>i_id = 1, i_invoice_no = ''INV-1'', i_issue_date = ''2024-01-01'',
                           i_due_date = ''2024-02-01'', i_client_id = 1, i_tax = 10,
                           i_total = 100, i_created_at = 5\<rparr>]\<rparr>"




lemmas ex_defs = ex_db_def ex_invoice_def ex_response_def ex_db1_def odd_total_db_def

lemmas handler_defs = create_invoice_def create_invoice_body_def with_get_db_def
  select_product_def next_rowid_def get_invoice_def select_invoice_with_client_def
  select_items_with_product_def delete_invoice_def delete_invoice_body_def Let_def

section \<open>Lookups, fresh ids and joins\<close>

lemma find_id_None: "k \<notin> set (map f xs) \<Longrightarrow> find (\<lambda>x. f x = k) xs = None"
  by (induction xs) auto

lemma find_id_Some: "k \<in> set (map f xs) \<Longrightarrow> find (\<lambda>x. f x = k) xs \<noteq> None"
  by (induction xs) auto

lemma find_id_None_rev: "find (\<lambda>x. f x = k) xs = None \<Longrightarrow> k \<notin> set (map f xs)"
  by (induction xs) (auto split: if_splits)

lemma find_id_Some_rev: "find (\<lambda>x. f x = k) xs \<noteq> None \<Longrightarrow> k \<in> set (map f xs)"
  by (induction xs) (auto split: if_splits)

lemma fold_max_ge: "a \<le> fold max ids (a::int)"
  by (induction ids arbitrary: a) (auto intro: order_trans [OF max.cobounded2])

lemma fold_max_upper: "x \<in> set ids \<Longrightarrow> x \<le> fold max ids (a::int)"
proof (induction ids arbitrary: a)
  case Nil
  then show ?case by simp
next
  case (Cons y ys)
  show ?case
  proof (cases "x = y")
    case True
    have "y \<le> max y a" by simp
    also have "\<dots> \<le> fold max ys (max y a)" by (rule fold_max_ge)
    finally show ?thesis using True by simp
  next
    case False
    with Cons.prems have "x \<in> set ys" by simp
    then show ?thesis using Cons.IH by simp
  qed
qed

lemma next_rowid_fresh: "next_rowid ids \<notin> set ids"
proof
  assume "next_rowid ids \<in> set ids"
  then have "next_rowid ids \<le> fold max ids 0" by (rule fold_max_upper)
  then show False by (simp add: next_rowid_def)
qed

lemma join_inner:
  "concat (map (\<lambda>b. if P b then if Q then [(a, b)] else [] else []) bs) =
   (if Q then map (Pair a) (filter P bs) else [])"
  by (induction bs) auto

lemma select_invoice_with_client_eq:
  "select_invoice_with_client s invoice_id =
   concat (map (\<lambda>i. if i_id i = invoice_id
                     then map (Pair i) (filter (\<lambda>c. i_client_id i = c_id c) (clients s))
                     else []) (invoices s))"
  unfolding select_invoice_with_client_def by (simp add: join_inner)

lemma select_items_with_product_eq:
  "select_items_with_product s invoice_id =
   concat (map (\<lambda>ii. if ii_invoice_id ii = invoice_id
                      then map (Pair ii) (filter (\<lambda>p. ii_product_id ii = p_id p) (products s))
                      else []) (invoice_items s))"
  unfolding select_items_with_product_def by (simp add: join_inner)

lemma select_invoice_with_client_set:
  "(i, c) \<in> set (select_invoice_with_client s invoice_id) \<longleftrightarrow>
   i \<in> set (invoices s) \<and> c \<in> set (clients s) \<and> i_client_id i = c_id c \<and> i_id i = invoice_id"
  unfolding select_invoice_with_client_eq by (auto split: if_splits)

lemma select_invoice_with_client_empty:
  "invoice_id \<notin> set (map i_id (invoices s)) \<Longrightarrow> select_invoice_with_client s invoice_id = []"
proof -
  assume a: "invoice_id \<notin> set (map i_id (invoices s))"
  have "x \<notin> set (select_invoice_with_client s invoice_id)" for x
    using a by (cases x) (auto simp: select_invoice_with_client_set)
  then show ?thesis by (cases "select_invoice_with_client s invoice_id") auto
qed

lemma get_invoice_sql_int: "get_invoice s invoice_id = Inr r \<Longrightarrow> sql_int invoice_id"
  by (auto simp: get_invoice_def split: if_splits)

lemma get_invoice_in_range:
  "sql_int invoice_id \<Longrightarrow>
   get_invoice s invoice_id =
     (case select_invoice_with_client s invoice_id of
        [] \<Rightarrow> Inl (HTTPException 404 InvoiceNotFound)
      | (i, c) # _ \<Rightarrow>
          (case build_items (select_items_with_product s invoice_id) [] 0 of
             (its, subtotal) \<Rightarrow>
               let tax_amount = subtotal * (i_tax i / 100)
               in Inr \<lparr>r_id = i_id i, r_invoice_no = i_invoice_no i,
                       r_issue_date = i_issue_date i, r_due_date = i_due_date i,
                       r_client = \<lparr>cr_id = c_id c, cr_name = c_name c,
                                   cr_address = c_address c,
                                   cr_company_registration_no = c_company_registration_no c\<rparr>,
                       r_items = its, r_tax = i_tax i, r_subtotal = subtotal,
                       r_tax_amount = tax_amount, r_total = i_total i\<rparr>))"
  by (simp add: get_invoice_def)

lemma get_invoice_id: "get_invoice s invoice_id = Inr r \<Longrightarrow> r_id r = invoice_id"
proof -
  assume g: "get_invoice s invoice_id = Inr r"
  then have k: "sql_int invoice_id" by (rule get_invoice_sql_int)
  note g' = g [unfolded get_invoice_in_range [OF k]]
  then obtain i c rest where sel: "select_invoice_with_client s invoice_id = (i, c) # rest"
    by (auto split: list.splits)
  then have "(i, c) \<in> set (select_invoice_with_client s invoice_id)" by simp
  then have "i_id i = invoice_id" by (simp add: select_invoice_with_client_set)
  moreover have "r_id r = i_id i"
    using g' sel by (auto simp: Let_def split: prod.splits)
  ultimately show ?thesis by simp
qed

lemma get_invoice_missing:
  "sql_int invoice_id \<Longrightarrow> invoice_id \<notin> set (map i_id (invoices s)) \<Longrightarrow>
   get_invoice s invoice_id = Inl (HTTPException 404 InvoiceNotFound)"
  by (simp add: get_invoice_in_range select_invoice_with_client_empty)

lemma abs_le_fits_float: "\<bar>q\<bar> \<le> 2 ^ 63 \<Longrightarrow> fits_float q"
proof -
  assume "\<bar>q\<bar> \<le> 2 ^ 63"
  also have "(2::int) ^ 63 < 2 ^ 970" by (rule power_strict_increasing) simp_all
  also have "(2::int) ^ 970 \<le> 2 ^ 1024 - 2 ^ 970"
  proof -
    have "(2::int) ^ 970 * 2 \<le> 2 ^ 970 * 2 ^ 54"
      by (rule mult_left_mono) simp_all
    also have "\<dots> = 2 ^ 1024" by (simp flip: power_add)
    finally show ?thesis by simp
  qed
  finally show ?thesis by (simp add: fits_float_def)
qed

lemma sql_int_fits_float: "sql_int q \<Longrightarrow> fits_float q"
  by (rule abs_le_fits_float) (auto simp: sql_int_def)

lemma not_fits_float_big: "\<not> fits_float (10 ^ 400)"
proof -
  have "(2::int) ^ 1024 \<le> 2 ^ 1200" by (rule power_increasing) simp_all
  also have "\<dots> = (2 ^ 3) ^ 400" by (simp flip: power_mult)
  also have "\<dots> \<le> 10 ^ 400" by (rule power_mono) simp_all
  finally have "(2::int) ^ 1024 \<le> \<bar>10 ^ 400\<bar>" by simp
  moreover have "(0::int) < 2 ^ 970" by simp
  ultimately have "\<not> \<bar>10 ^ 400\<bar> < (2::int) ^ 1024 - 2 ^ 970" by linarith
  then show ?thesis unfolding fits_float_def .
qed

lemma sql_int_stored:
  "list_all (\<lambda>x. sql_int (f x)) xs \<Longrightarrow> k \<in> set (map f xs) \<Longrightarrow> sql_int k"
  by (auto simp: list_all_iff)

lemmas eval_defs = handler_defs sql_int_def sql_int_fits_float

section \<open>Creation: the checks that precede every write\<close>

lemma create_invoice_raises:
  "create_invoice_body s invoice now = (Inl e, s') \<Longrightarrow> create_invoice s invoice now = (Inl e, s)"
  by (simp add: create_invoice_def with_get_db_def)

text \<open>
  Claim C2, as amended. A create request whose \<open>client_id\<close> is a 64-bit integer that names no
  client row fails with HTTP 404 (client not found); a \<open>client_id\<close> outside the 64-bit range
  fails with status 500. In both cases the block raises before it has executed any INSERT, so
  the database at the point of the raise, and the database after the request, are the one the
  request found: no invoice row and no item row is written.
\<close>

theorem create_invoice_unknown_client:
  assumes "client_id invoice \<notin> set (map c_id (clients s))"
  shows "(sql_int (client_id invoice) \<longrightarrow>
            create_invoice_body s invoice now =
              (Inl (HTTPException 404 (ClientNotFound (client_id invoice))), s) \<and>
            create_invoice s invoice now =
              (Inl (HTTPException 404 (ClientNotFound (client_id invoice))), s)) \<and>
         (\<not> sql_int (client_id invoice) \<longrightarrow>
            create_invoice_body s invoice now = (Inl (HTTPException 500 DatabaseError), s) \<and>
            create_invoice s invoice now = (Inl (HTTPException 500 DatabaseError), s))"
proof -
  have n: "find (\<lambda>c. c_id c = client_id invoice) (clients s) = None"
    using assms by (rule find_id_None)
  have a: "create_invoice_body s invoice now =
             (Inl (HTTPException 404 (ClientNotFound (client_id invoice))), s)"
    if "sql_int (client_id invoice)"
    using that n by (simp add: create_invoice_body_def)
  have b: "create_invoice_body s invoice now = (Inl (HTTPException 500 DatabaseError), s)"
    if "\<not> sql_int (client_id invoice)"
    using that by (simp add: create_invoice_body_def)
  from a b show ?thesis by (auto dest: create_invoice_raises)
qed

theorem create_invoice_unknown_client_witness:
  "client_id (ex_invoice\<lparr>client_id := 7\<rparr>) \<notin> set (map c_id (clients ex_db)) \<and>
   sql_int (client_id (ex_invoice\<lparr>client_id := 7\<rparr>)) \<and>
   create_invoice ex_db (ex_invoice\<lparr>client_id := 7\<rparr>) 5 =
     (Inl (HTTPException 404 (ClientNotFound 7)), ex_db) \<and>
   client_id (ex_invoice\<lparr>client_id := 9223372036854775808\<rparr>) \<notin> set (map c_id (clients ex_db)) \<and>
   \<not> sql_int (client_id (ex_invoice\<lparr>client_id := 9223372036854775808\<rparr>)) \<and>
   snd (create_invoice ex_db (ex_invoice\<lparr>client_id := 9223372036854775808\<rparr>) 5) = ex_db"
proof -
  have h: "client_id (ex_invoice\<lparr>client_id := 7\<rparr>) \<notin> set (map c_id (clients ex_db))"
    by (simp add: ex_defs)
  have r: "sql_int (client_id (ex_invoice\<lparr>client_id := 7\<rparr>))"
    by (simp add: sql_int_def)
  have h': "client_id (ex_invoice\<lparr>client_id := 9223372036854775808\<rparr>)
      \<notin> set (map c_id (clients ex_db))"
    by (simp add: ex_defs)
  have r': "\<not> sql_int (client_id (ex_invoice\<lparr>client_id := 9223372036854775808\<rparr>))"
    by (simp add: sql_int_def)
  show ?thesis
    using h r h' r' create_invoice_unknown_client [OF h, of 5]
      create_invoice_unknown_client [OF h', of 5]
    by simp
qed

text \<open>
  The claim as first stated promises 404 for every \<open>client_id\<close> that names no client. The
  integer \<open>2 ^ 63\<close> names none, and the request ends with status 500.
\<close>

theorem create_invoice_unknown_client_counterexample:
  "9223372036854775808 \<notin> set (map c_id (clients ex_db)) \<and>
   create_invoice ex_db (ex_invoice\<lparr>client_id := 9223372036854775808\<rparr>) 5 =
     (Inl (HTTPException 500 DatabaseError), ex_db)"
  by (simp add: ex_defs create_invoice_def create_invoice_body_def with_get_db_def sql_int_def)

text \<open>
  Claim C3. A create request on a database that meets the schema's constraints, whose client
  exists and whose \<open>invoice_no\<close> is already the number of a stored invoice, fails with HTTP 400
  (invoice number exists), and the database is left as it was; the block raises before any
  INSERT.
\<close>

theorem create_invoice_duplicate_invoice_no:
  assumes "wf_db s"
    and "client_id invoice \<in> set (map c_id (clients s))"
    and "invoice_no invoice \<in> set (map i_invoice_no (invoices s))"
  shows "create_invoice_body s invoice now =
           (Inl (HTTPException 400 (InvoiceNoExists (invoice_no invoice))), s) \<and>
         create_invoice s invoice now =
           (Inl (HTTPException 400 (InvoiceNoExists (invoice_no invoice))), s)"
proof -
  from assms(1) have "list_all (\<lambda>c. sql_int (c_id c)) (clients s)" by (simp add: wf_db_def)
  then have r: "sql_int (client_id invoice)" using assms(2) by (rule sql_int_stored)
  have c: "find (\<lambda>c. c_id c = client_id invoice) (clients s) \<noteq> None"
    using assms(2) by (rule find_id_Some)
  have n: "find (\<lambda>i. i_invoice_no i = invoice_no invoice) (invoices s) \<noteq> None"
    using assms(3) by (rule find_id_Some)
  have "create_invoice_body s invoice now =
           (Inl (HTTPException 400 (InvoiceNoExists (invoice_no invoice))), s)"
    using r c n by (simp add: create_invoice_body_def)
  then show ?thesis by (simp add: create_invoice_def with_get_db_def)
qed

theorem create_invoice_duplicate_invoice_no_witness:
  "wf_db ex_db1 \<and>
   client_id ex_invoice \<in> set (map c_id (clients ex_db1)) \<and>
   invoice_no ex_invoice \<in> set (map i_invoice_no (invoices ex_db1)) \<and>
   create_invoice ex_db1 ex_invoice 9 =
     (Inl (HTTPException 400 (InvoiceNoExists ''INV-1'')), ex_db1)"
proof -
  have h0: "wf_db ex_db1" by (simp add: wf_db_def sql_int_def ex_defs)
  have h1: "client_id ex_invoice \<in> set (map c_id (clients ex_db1))"
    by (simp add: ex_defs)
  have h2: "invoice_no ex_invoice \<in> set (map i_invoice_no (invoices ex_db1))"
    by (simp add: ex_defs)
  have n: "invoice_no ex_invoice = ''INV-1''" by (simp add: ex_defs)
  show ?thesis
    using h0 h1 h2 n create_invoice_duplicate_invoice_no [OF h0 h1 h2, of 9] by simp
qed

lemma validate_items_missing:
  assumes "list_all (\<lambda>p. sql_int (p_id p)) (products s)"
    and "find (\<lambda>item. product_id item \<notin> set (map p_id (products s)) \<or>
                       \<not> fits_float (quantity item)) its = Some item"
    and "sql_int (product_id item)"
    and "product_id item \<notin> set (map p_id (products s))"
  shows "validate_items s its subtotal acc =
           Inl (HTTPException 404 (ProductNotFound (product_id item)))"
  using assms(2)
proof (induction its arbitrary: subtotal acc)
  case Nil
  then show ?case by simp
next
  case (Cons it rest)
  show ?case
  proof (cases "product_id it \<notin> set (map p_id (products s)) \<or> \<not> fits_float (quantity it)")
    case True
    with Cons.prems have "item = it" by simp
    moreover have "select_product s (product_id item) = None"
      unfolding select_product_def using assms(4) by (rule find_id_None)
    ultimately show ?thesis using assms(3) by simp
  next
    case False
    then have in_store: "product_id it \<in> set (map p_id (products s))"
      and q: "fits_float (quantity it)" by simp_all
    from assms(1) in_store have r: "sql_int (product_id it)" by (rule sql_int_stored)
    from in_store have "select_product s (product_id it) \<noteq> None"
      unfolding select_product_def by (rule find_id_Some)
    then obtain p where p: "select_product s (product_id it) = Some p" by auto
    from False Cons.prems
    have "find (\<lambda>item. product_id item \<notin> set (map p_id (products s)) \<or>
                       \<not> fits_float (quantity item)) rest = Some item"
      by simp
    then show ?thesis using p q r Cons.IH by (simp add: Let_def)
  qed
qed

lemma validate_items_some_missing:
  "list_ex (\<lambda>item. product_id item \<notin> set (map p_id (products s))) its \<Longrightarrow>
   \<exists>e. validate_items s its subtotal acc = Inl e \<and> (status_code e = 404 \<or> status_code e = 500)"
proof (induction its arbitrary: subtotal acc)
  case Nil
  then show ?case by simp
next
  case (Cons it rest)
  show ?case
  proof (cases "product_id it \<in> set (map p_id (products s))")
    case True
    with Cons.prems
    have "list_ex (\<lambda>item. product_id item \<notin> set (map p_id (products s))) rest" by simp
    from Cons.IH [OF this] show ?thesis
      by (auto simp: Let_def split: option.splits)
  next
    case False
    then have "select_product s (product_id it) = None"
      unfolding select_product_def by (rule find_id_None)
    then show ?thesis by simp
  qed
qed

text \<open>
  Claim C4, as amended. Take a create request on a database that meets the schema's
  constraints, which passes the client and invoice-number checks. The first loop handles the
  items in input order and raises at the first item whose product does not exist or whose
  quantity does not convert to a float. When that item's product id is a 64-bit integer that
  names no product, the request fails with HTTP 404 naming that product. Whenever some item's
  product does not exist, the request fails with status 404 or 500. In every one of these
  cases the block raises before the first INSERT, so neither an invoice row nor an item row is
  written.
\<close>

theorem create_invoice_unknown_product:
  assumes wf: "wf_db s"
    and cl: "client_id invoice \<in> set (map c_id (clients s))"
    and no: "invoice_no invoice \<notin> set (map i_invoice_no (invoices s))"
  shows "(find (\<lambda>item. product_id item \<notin> set (map p_id (products s)) \<or>
                        \<not> fits_float (quantity item)) (items invoice) = Some item \<and>
          sql_int (product_id item) \<and> product_id item \<notin> set (map p_id (products s)) \<longrightarrow>
            create_invoice_body s invoice now =
              (Inl (HTTPException 404 (ProductNotFound (product_id item))), s) \<and>
            create_invoice s invoice now =
              (Inl (HTTPException 404 (ProductNotFound (product_id item))), s)) \<and>
         (list_ex (\<lambda>item. product_id item \<notin> set (map p_id (products s))) (items invoice) \<longrightarrow>
            (\<exists>e. create_invoice_body s invoice now = (Inl e, s) \<and>
                 create_invoice s invoice now = (Inl e, s) \<and>
                 (status_code e = 404 \<or> status_code e = 500)))"
proof -
  from wf have rc: "list_all (\<lambda>c. sql_int (c_id c)) (clients s)"
    and rp: "list_all (\<lambda>p. sql_int (p_id p)) (products s)" by (simp_all add: wf_db_def)
  from rc cl have r: "sql_int (client_id invoice)" by (rule sql_int_stored)
  have c: "find (\<lambda>c. c_id c = client_id invoice) (clients s) \<noteq> None"
    using cl by (rule find_id_Some)
  have n: "find (\<lambda>i. i_invoice_no i = invoice_no invoice) (invoices s) = None"
    using no by (rule find_id_None)
  have body: "create_invoice_body s invoice now = (Inl e, s)"
    if "validate_items s (items invoice) 0 [] = Inl e" for e
    using r c n that by (auto simp: create_invoice_body_def)
  have first: "create_invoice_body s invoice now =
              (Inl (HTTPException 404 (ProductNotFound (product_id item))), s)"
    if "find (\<lambda>item. product_id item \<notin> set (map p_id (products s)) \<or>
                        \<not> fits_float (quantity item)) (items invoice) = Some item"
      and "sql_int (product_id item)" and "product_id item \<notin> set (map p_id (products s))"
    using validate_items_missing [OF rp that] by (rule body)
  have some: "\<exists>e. create_invoice_body s invoice now = (Inl e, s) \<and>
                 create_invoice s invoice now = (Inl e, s) \<and>
                 (status_code e = 404 \<or> status_code e = 500)"
    if "list_ex (\<lambda>item. product_id item \<notin> set (map p_id (products s))) (items invoice)"
  proof -
    from validate_items_some_missing [OF that, of 0 "[]"] obtain e where
      e: "validate_items s (items invoice) 0 [] = Inl e"
      "status_code e = 404 \<or> status_code e = 500" by blast
    from body [OF e(1)] e(2) show ?thesis by (auto dest: create_invoice_raises)
  qed
  from first some show ?thesis by (auto dest: create_invoice_raises)
qed

theorem create_invoice_unknown_product_witness:
  "wf_db ex_db \<and>
   client_id (ex_invoice\<lparr>items := [\<lparr>product_id = 1, quantity = 3\<rparr>, \<lparr>product_id = 8, quantity = 1\<rparr>,
                                   \<lparr>product_id = 9, quantity = 2\<rparr>]\<rparr>)
     \<in> set (map c_id (clients ex_db)) \<and>
   create_invoice ex_db
     (ex_invoice\<lparr>items := [\<lparr>product_id = 1, quantity = 3\<rparr>, \<lparr>product_id = 8, quantity = 1\<rparr>,
                             \<lparr>product_id = 9, quantity = 2\<rparr>]\<rparr>) 5 =
     (Inl (HTTPException 404 (ProductNotFound 8)), ex_db)"
proof -
  let ?x = "ex_invoice\<lparr>items := [\<lparr>product_id = 1, quantity = 3\<rparr>, \<lparr>product_id = 8, quantity = 1\<rparr>,
                                   \<lparr>product_id = 9, quantity = 2\<rparr>]\<rparr>"
  have h0: "wf_db ex_db" by (simp add: wf_db_def sql_int_def ex_defs)
  have h1: "client_id ?x \<in> set (map c_id (clients ex_db))"
    by (simp add: ex_defs)
  have h2: "invoice_no ?x \<notin> set (map i_invoice_no (invoices ex_db))"
    by (simp add: ex_defs)
  have f3: "fits_float 3" by (rule sql_int_fits_float) (simp add: sql_int_def)
  have h3: "find (\<lambda>item. product_id item \<notin> set (map p_id (products ex_db)) \<or>
                       \<not> fits_float (quantity item)) (items ?x) =
            Some \<lparr>product_id = 8, quantity = 1\<rparr>"
    using f3 by (simp add: ex_defs)
  have h4: "sql_int (product_id \<lparr>product_id = 8, quantity = 1\<rparr>)" by (simp add: sql_int_def)
  have h5: "product_id \<lparr>product_id = 8, quantity = 1\<rparr> \<notin> set (map p_id (products ex_db))"
    by (simp add: ex_defs)
  have h6: "list_ex (\<lambda>item. product_id item \<notin> set (map p_id (products ex_db))) (items ?x)"
    by (simp add: ex_defs)
  from create_invoice_unknown_product [OF h0 h1 h2, of "\<lparr>product_id = 8, quantity = 1\<rparr>" 5]
    h3 h4 h5 h6
  have "create_invoice ex_db ?x 5 = (Inl (HTTPException 404 (ProductNotFound 8)), ex_db)"
    by simp
  with h0 h1 show ?thesis by simp
qed

text \<open>
  The claim as first stated promises 404 naming the first missing product in every case. In
  the first request below the only item names product \<open>2 ^ 63\<close>, which does not exist; in the
  second, product 8 does not exist but the item before it has a quantity of \<open>10 ^ 400\<close>. Both
  end with status 500.
\<close>

theorem create_invoice_unknown_product_counterexample:
  "9223372036854775808 \<notin> set (map p_id (products ex_db)) \<and>
   create_invoice ex_db
     (ex_invoice\<lparr>items := [\<lparr>product_id = 9223372036854775808, quantity = 1\<rparr>]\<rparr>) 5 =
     (Inl (HTTPException 500 DatabaseError), ex_db) \<and>
   8 \<notin> set (map p_id (products ex_db)) \<and>
   create_invoice ex_db
     (ex_invoice\<lparr>items := [\<lparr>product_id = 1, quantity = 10 ^ 400\<rparr>,
                             \<lparr>product_id = 8, quantity = 1\<rparr>]\<rparr>) 5 =
     (Inl (HTTPException 500 DatabaseError), ex_db)"
proof -
  note big = not_fits_float_big
  show ?thesis
    using big
    by (simp add: ex_defs create_invoice_def create_invoice_body_def with_get_db_def sql_int_def
        select_product_def)
qed

section \<open>Reading back what was created\<close>

lemma create_invoice_returns_get:
  assumes "create_invoice s invoice now = (Inr r, s')"
  shows "get_invoice s' (r_id r) = Inr r"
proof -
  from assms have b: "create_invoice_body s invoice now = (Inr r, s')"
    by (auto simp: create_invoice_def with_get_db_def split: prod.splits sum.splits)
  then obtain k where "get_invoice s' k = Inr r"
    by (auto simp: create_invoice_body_def Let_def split: if_splits sum.splits prod.splits)
  moreover from this have "r_id r = k" by (rule get_invoice_id)
  ultimately show ?thesis by simp
qed

text \<open>
  Claim C6. When a create request succeeds with response \<open>r\<close>, reading the invoice with the
  id of \<open>r\<close> from the resulting database returns exactly \<open>r\<close>: the same items, subtotal,
  tax amount and total.
\<close>

theorem get_after_create:
  assumes "create_invoice s invoice now = (Inr r, s')"
  shows "get_invoice s' (r_id r) = Inr r"
  using assms by (rule create_invoice_returns_get)

theorem get_after_create_witness:
  "create_invoice ex_db ex_invoice 5 = (Inr ex_response, ex_db1) \<and>
   get_invoice ex_db1 1 = Inr ex_response"
proof -
  have h: "create_invoice ex_db ex_invoice 5 = (Inr ex_response, ex_db1)"
    by (simp add: ex_defs eval_defs)
  have "r_id ex_response = 1" by (simp add: ex_defs)
  then show ?thesis
    using h get_after_create [OF h] by simp
qed

section \<open>Deletion\<close>

text \<open>
  Claim C8, as amended. Deleting a 64-bit integer id that no invoice row has fails with HTTP
  404 and changes nothing; an id outside the 64-bit range fails with status 500 and changes
  nothing. Deleting the 64-bit id of a stored invoice removes every item row of that invoice
  and the invoice row, and nothing else; afterwards both reading and deleting that id fail
  with HTTP 404.
\<close>

theorem delete_invoice_removes:
  "(sql_int invoice_id \<and> invoice_id \<notin> set (map i_id (invoices s)) \<longrightarrow>
      delete_invoice s invoice_id = (Inl (HTTPException 404 InvoiceNotFound), s)) \<and>
   (\<not> sql_int invoice_id \<longrightarrow>
      delete_invoice s invoice_id = (Inl (HTTPException 500 DatabaseError), s)) \<and>
   (sql_int invoice_id \<and> invoice_id \<in> set (map i_id (invoices s)) \<longrightarrow>
      (\<exists>s'. delete_invoice s invoice_id = (Inr (), s') \<and>
            invoice_items s' = filter (\<lambda>ii. ii_invoice_id ii \<noteq> invoice_id) (invoice_items s) \<and>
            invoices s' = filter (\<lambda>i. i_id i \<noteq> invoice_id) (invoices s) \<and>
            clients s' = clients s \<and> products s' = products s \<and>
            get_invoice s' invoice_id = Inl (HTTPException 404 InvoiceNotFound) \<and>
            delete_invoice s' invoice_id = (Inl (HTTPException 404 InvoiceNotFound), s')))"
proof (intro conjI impI)
  assume a: "sql_int invoice_id \<and> invoice_id \<notin> set (map i_id (invoices s))"
  then have "find (\<lambda>i. i_id i = invoice_id) (invoices s) = None"
    by (intro find_id_None) simp
  with a show "delete_invoice s invoice_id = (Inl (HTTPException 404 InvoiceNotFound), s)"
    by (simp add: delete_invoice_def delete_invoice_body_def with_get_db_def)
next
  assume "\<not> sql_int invoice_id"
  then show "delete_invoice s invoice_id = (Inl (HTTPException 500 DatabaseError), s)"
    by (simp add: delete_invoice_def delete_invoice_body_def with_get_db_def)
next
  assume a: "sql_int invoice_id \<and> invoice_id \<in> set (map i_id (invoices s))"
  then have r: "sql_int invoice_id" and m: "invoice_id \<in> set (map i_id (invoices s))"
    by simp_all
  define s' where "s' = s\<lparr>invoice_items := filter (\<lambda>ii. ii_invoice_id ii \<noteq> invoice_id) (invoice_items s),
                          invoices := filter (\<lambda>i. i_id i \<noteq> invoice_id) (invoices s)\<rparr>"
  from m have f: "find (\<lambda>i. i_id i = invoice_id) (invoices s) \<noteq> None"
    by (rule find_id_Some)
  then have d: "delete_invoice s invoice_id = (Inr (), s')"
    using r by (simp add: delete_invoice_def delete_invoice_body_def with_get_db_def s'_def Let_def)
  have gone: "invoice_id \<notin> set (map i_id (invoices s'))"
    by (auto simp: s'_def)
  then have f': "find (\<lambda>i. i_id i = invoice_id) (invoices s') = None"
    by (rule find_id_None)
  have g: "get_invoice s' invoice_id = Inl (HTTPException 404 InvoiceNotFound)"
    using r gone by (rule get_invoice_missing)
  have d': "delete_invoice s' invoice_id = (Inl (HTTPException 404 InvoiceNotFound), s')"
    using r f' by (simp add: delete_invoice_def delete_invoice_body_def with_get_db_def)
  show "\<exists>s'. delete_invoice s invoice_id = (Inr (), s') \<and>
            invoice_items s' = filter (\<lambda>ii. ii_invoice_id ii \<noteq> invoice_id) (invoice_items s) \<and>
            invoices s' = filter (\<lambda>i. i_id i \<noteq> invoice_id) (invoices s) \<and>
            clients s' = clients s \<and> products s' = products s \<and>
            get_invoice s' invoice_id = Inl (HTTPException 404 InvoiceNotFound) \<and>
            delete_invoice s' invoice_id = (Inl (HTTPException 404 InvoiceNotFound), s')"
    using d g d' by (intro exI [of _ s']) (simp add: s'_def)
qed

theorem delete_invoice_removes_witness:
  "sql_int 7 \<and> 7 \<notin> set (map i_id (invoices ex_db1)) \<and>
   delete_invoice ex_db1 7 = (Inl (HTTPException 404 InvoiceNotFound), ex_db1) \<and>
   sql_int 1 \<and> 1 \<in> set (map i_id (invoices ex_db1)) \<and>
   delete_invoice ex_db1 1 = (Inr (), ex_db) \<and>
   get_invoice ex_db 1 = Inl (HTTPException 404 InvoiceNotFound) \<and>
   delete_invoice ex_db 1 = (Inl (HTTPException 404 InvoiceNotFound), ex_db) \<and>
   \<not> sql_int (- 9223372036854775809) \<and>
   delete_invoice ex_db1 (- 9223372036854775809) = (Inl (HTTPException 500 DatabaseError), ex_db1)"
proof -
  have h1: "sql_int 7 \<and> 7 \<notin> set (map i_id (invoices ex_db1))"
    by (simp add: sql_int_def ex_defs)
  have h2: "sql_int 1 \<and> 1 \<in> set (map i_id (invoices ex_db1))"
    by (simp add: sql_int_def ex_defs)
  have h3: "\<not> sql_int (- 9223372036854775809)" by (simp add: sql_int_def)
  have d: "delete_invoice ex_db1 1 = (Inr (), ex_db)"
    by (simp add: ex_defs eval_defs)
  from delete_invoice_removes [of 7 ex_db1] h1
  have a: "delete_invoice ex_db1 7 = (Inl (HTTPException 404 InvoiceNotFound), ex_db1)"
    by blast
  from delete_invoice_removes [of 1 ex_db1] h2 d
  have b: "get_invoice ex_db 1 = Inl (HTTPException 404 InvoiceNotFound) \<and>
           delete_invoice ex_db 1 = (Inl (HTTPException 404 InvoiceNotFound), ex_db)"
    by auto
  from delete_invoice_removes [of "- 9223372036854775809" ex_db1] h3
  have c: "delete_invoice ex_db1 (- 9223372036854775809) =
           (Inl (HTTPException 500 DatabaseError), ex_db1)"
    by blast
  show ?thesis using h1 h2 h3 d a b c by simp
qed

text \<open>
  The claim as first stated promises 404 for every id that does not exist. The integer
  \<open>2 ^ 63\<close> is the id of no invoice, and deleting it ends with status 500.
\<close>

theorem delete_invoice_removes_counterexample:
  "9223372036854775808 \<notin> set (map i_id (invoices ex_db1)) \<and>
   delete_invoice ex_db1 9223372036854775808 = (Inl (HTTPException 500 DatabaseError), ex_db1)"
  by (simp add: ex_defs delete_invoice_def delete_invoice_body_def with_get_db_def sql_int_def)

section \<open>The loops of create_invoice and get_invoice\<close>

lemma select_product_invoice_items [simp]:
  "select_product (s\<lparr>invoice_items := x\<rparr>) pid = select_product s pid"
  by (simp add: select_product_def)

lemma select_product_invoices [simp]:
  "select_product (s\<lparr>invoices := x\<rparr>) pid = select_product s pid"
  by (simp add: select_product_def)

lemma select_product_Some:
  "pid \<in> set (map p_id (products s)) \<Longrightarrow> \<exists>p. select_product s pid = Some p"
  using find_id_Some [of pid p_id "products s"] by (auto simp: select_product_def)

lemma select_product_p_id: "select_product s pid = Some p \<Longrightarrow> p_id p = pid \<and> p \<in> set (products s)"
  by (auto simp: select_product_def find_Some_iff)

lemma find_filter_Cons: "find P xs = Some x \<Longrightarrow> \<exists>rest. filter P xs = x # rest"
  by (induction xs) (auto split: if_splits)

lemma filter_unique:
  "distinct (map f xs) \<Longrightarrow> x \<in> set xs \<Longrightarrow> filter (\<lambda>y. f x = f y) xs = [x]"
proof (induction xs)
  case Nil
  then show ?case by simp
next
  case (Cons y ys)
  show ?case
  proof (cases "x = y")
    case True
    with Cons.prems have "\<forall>z\<in>set ys. f z \<noteq> f y" by (auto simp: image_iff)
    then have "filter (\<lambda>z. f y = f z) ys = []" by (auto simp: filter_empty_conv)
    with True show ?thesis by simp
  next
    case False
    with Cons.prems have xin: "x \<in> set ys" by simp
    with Cons.prems have "f x \<noteq> f y" by (auto simp: image_iff)
    with Cons xin show ?thesis by simp
  qed
qed

lemma build_items_fst:
  "fst (build_items rows acc subtotal) =
   acc @ map (\<lambda>(ii, p). \<lparr>item_id = ii_id ii, item_product_id = ii_product_id ii,
                          item_product_name = p_name p, item_quantity = ii_quantity ii,
                          item_unit_price = ii_unit_price ii,
                          item_subtotal = ii_unit_price ii * of_int (ii_quantity ii)\<rparr>) rows"
  by (induction rows acc subtotal rule: build_items.induct) (simp_all add: Let_def)

lemma build_items_snd:
  "snd (build_items rows acc subtotal) =
   subtotal + sum_list (map (\<lambda>(ii, p). ii_unit_price ii * of_int (ii_quantity ii)) rows)"
  by (induction rows acc subtotal rule: build_items.induct) (simp_all add: Let_def)

lemma validate_items_ok:
  "list_all (\<lambda>item. sql_int (product_id item) \<and>
                     product_id item \<in> set (map p_id (products s)) \<and>
                     fits_float (quantity item)) its \<Longrightarrow>
   \<exists>v. validate_items s its subtotal acc =
     Inr (subtotal + sum_list (map (\<lambda>item. p_price (the (select_product s (product_id item))) *
                                           of_int (quantity item)) its), v)"
proof (induction its arbitrary: subtotal acc)
  case Nil
  then show ?case by simp
next
  case (Cons it rest)
  from Cons.prems obtain p where p: "select_product s (product_id it) = Some p"
    using select_product_Some [of "product_id it" s] by auto
  from Cons.prems have ok: "sql_int (product_id it)" "fits_float (quantity it)" by simp_all
  from Cons.prems have "list_all (\<lambda>item. sql_int (product_id item) \<and>
                     product_id item \<in> set (map p_id (products s)) \<and>
                     fits_float (quantity item)) rest"
    by simp
  from Cons.IH [OF this, of "subtotal + p_price p * of_int (quantity it)"
      "acc @ [\<lparr>v_product_id = product_id it, v_product_name = p_name p,
               v_quantity = quantity it, v_unit_price = p_price p,
               v_subtotal = p_price p * of_int (quantity it)\<rparr>]"]
  obtain v where "validate_items s rest (subtotal + p_price p * of_int (quantity it))
      (acc @ [\<lparr>v_product_id = product_id it, v_product_name = p_name p,
               v_quantity = quantity it, v_unit_price = p_price p,
               v_subtotal = p_price p * of_int (quantity it)\<rparr>]) =
     Inr (subtotal + p_price p * of_int (quantity it) +
          sum_list (map (\<lambda>item. p_price (the (select_product s (product_id item))) *
                                           of_int (quantity item)) rest), v)"
    by blast
  then show ?case using p ok by (simp add: Let_def add.assoc)
qed

lemma find_not_list_all: "\<not> list_all P xs \<Longrightarrow> \<exists>x. find (\<lambda>x. \<not> P x) xs = Some x"
  by (induction xs) auto

lemma validate_items_Inr_all:
  "validate_items s its subtotal acc = Inr res \<Longrightarrow>
   list_all (\<lambda>item. sql_int (product_id item) \<and>
                     product_id item \<in> set (map p_id (products s)) \<and>
                     fits_float (quantity item)) its"
proof (induction its arbitrary: subtotal acc)
  case Nil
  then show ?case by simp
next
  case (Cons it rest)
  from Cons.prems have r: "sql_int (product_id it)"
    by (auto split: if_splits)
  with Cons.prems obtain p where p: "select_product s (product_id it) = Some p"
    by (auto split: option.splits)
  with Cons.prems r have q: "fits_float (quantity it)"
    by (auto split: if_splits)
  from select_product_p_id [OF p] have m: "product_id it \<in> set (map p_id (products s))"
    by force
  from Cons.prems r p q obtain sub' acc' where "validate_items s rest sub' acc' = Inr res"
    by (auto simp: Let_def)
  from Cons.IH [OF this] r m q show ?case by simp
qed

lemma insert_items_Inr_all:
  "insert_items s k its = (Inr u, s') \<Longrightarrow> list_all (\<lambda>item. sql_int (quantity item)) its"
proof (induction its arbitrary: s)
  case Nil
  then show ?case by simp
next
  case (Cons it rest)
  from Cons.prems have r: "sql_int (product_id it)"
    by (auto split: if_splits)
  with Cons.prems obtain p where p: "select_product s (product_id it) = Some p"
    by (auto split: option.splits)
  with Cons.prems r have q: "sql_int k \<and> sql_int (quantity it)"
    by (auto split: if_splits)
  from Cons.prems r p q obtain s1 where "insert_items s1 k rest = (Inr u, s')"
    by auto
  from Cons.IH [OF this] q show ?case by simp
qed

lemma insert_items_ok:
  "sql_int k \<Longrightarrow>
   list_all (\<lambda>item. sql_int (product_id item) \<and>
                     product_id item \<in> set (map p_id (products s)) \<and>
                     sql_int (quantity item)) its \<Longrightarrow>
   \<exists>rows. insert_items s k its = (Inr (), s\<lparr>invoice_items := invoice_items s @ rows\<rparr>) \<and>
          map (\<lambda>row. (ii_invoice_id row, ii_product_id row, ii_quantity row, ii_unit_price row)) rows =
          map (\<lambda>item. (k, product_id item, quantity item,
                        p_price (the (select_product s (product_id item))))) its \<and>
          (distinct (map ii_id (invoice_items s)) \<longrightarrow>
             distinct (map ii_id (invoice_items s @ rows)))"
proof (induction its arbitrary: s)
  case Nil
  show ?case by (intro exI [of _ "[]"]) simp
next
  case (Cons it rest)
  from Cons.prems obtain p where p: "select_product s (product_id it) = Some p"
    using select_product_Some [of "product_id it" s] by auto
  from Cons.prems have ok: "sql_int k" "sql_int (product_id it)" "sql_int (quantity it)"
    by simp_all
  define row where "row = \<lparr>ii_id = next_rowid (map ii_id (invoice_items s)),
                   ii_invoice_id = k, ii_product_id = product_id it,
                   ii_quantity = quantity it, ii_unit_price = p_price p\<rparr>"
  define s1 where "s1 = s\<lparr>invoice_items := invoice_items s @ [row]\<rparr>"
  have step: "insert_items s k (it # rest) = insert_items s1 k rest"
    using p ok by (simp add: s1_def row_def)
  have "list_all (\<lambda>item. sql_int (product_id item) \<and>
                     product_id item \<in> set (map p_id (products s1)) \<and>
                     sql_int (quantity item)) rest"
    using Cons.prems by (simp add: s1_def)
  from Cons.IH [OF ok(1) this] obtain rows where
    r1: "insert_items s1 k rest = (Inr (), s1\<lparr>invoice_items := invoice_items s1 @ rows\<rparr>)" and
    r2: "map (\<lambda>row. (ii_invoice_id row, ii_product_id row, ii_quantity row, ii_unit_price row)) rows =
         map (\<lambda>item. (k, product_id item, quantity item,
                        p_price (the (select_product s1 (product_id item))))) rest" and
    r3: "distinct (map ii_id (invoice_items s1)) \<longrightarrow> distinct (map ii_id (invoice_items s1 @ rows))"
    by blast
  have fresh: "ii_id row \<notin> set (map ii_id (invoice_items s))"
    using next_rowid_fresh [of "map ii_id (invoice_items s)"] by (simp add: row_def)
  have a: "insert_items s k (it # rest) = (Inr (), s\<lparr>invoice_items := invoice_items s @ (row # rows)\<rparr>)"
    using step r1 by (simp add: s1_def)
  have b: "map (\<lambda>row. (ii_invoice_id row, ii_product_id row, ii_quantity row, ii_unit_price row)) (row # rows) =
         map (\<lambda>item. (k, product_id item, quantity item,
                        p_price (the (select_product s (product_id item))))) (it # rest)"
    using r2 p by (simp add: s1_def row_def)
  have c: "distinct (map ii_id (invoice_items s)) \<longrightarrow> distinct (map ii_id (invoice_items s @ (row # rows)))"
    using r3 fresh by (auto simp: s1_def)
  from a b c show ?case by blast
qed


lemma build_items_eq:
  "build_items rows acc subtotal =
   (acc @ map (\<lambda>(ii, p). \<lparr>item_id = ii_id ii, item_product_id = ii_product_id ii,
                          item_product_name = p_name p, item_quantity = ii_quantity ii,
                          item_unit_price = ii_unit_price ii,
                          item_subtotal = ii_unit_price ii * of_int (ii_quantity ii)\<rparr>) rows,
    subtotal + sum_list (map (\<lambda>(ii, p). ii_unit_price ii * of_int (ii_quantity ii)) rows))"
  by (rule prod_eqI) (simp_all add: build_items_fst build_items_snd)

lemma find_filter_Cons_id:
  "find (\<lambda>x. f x = k) xs = Some x \<Longrightarrow> \<exists>rest. filter (\<lambda>y. k = f y) xs = x # rest"
  by (induction xs) (auto split: if_splits)

lemma concat_map_empty: "(\<And>x. x \<in> set xs \<Longrightarrow> f x = []) \<Longrightarrow> concat (map f xs) = []"
  by (induction xs) auto

lemma concat_map_single: "(\<And>x. x \<in> set xs \<Longrightarrow> f x = [g x]) \<Longrightarrow> concat (map f xs) = map g xs"
  by (induction xs) auto

lemma filter_product_unique:
  assumes "distinct (map p_id (products s))" and "select_product s pid = Some p"
  shows "filter (\<lambda>q. pid = p_id q) (products s) = [p]"
proof -
  from assms(2) have "p_id p = pid" and "p \<in> set (products s)"
    using select_product_p_id by blast+
  with filter_unique [OF assms(1), of p] show ?thesis by simp
qed

lemma create_invoice_ok:
  fixes s :: db and invoice :: InvoiceCreate and now :: int
  defines "k \<equiv> next_rowid (map i_id (invoices s))"
    and "S \<equiv> sum_list (map (\<lambda>item. p_price (the (select_product s (product_id item))) *
                                    of_int (quantity item)) (items invoice))"
  assumes wf: "wf_db s"
    and cl: "find (\<lambda>c. c_id c = client_id invoice) (clients s) = Some c"
    and no: "invoice_no invoice \<notin> set (map i_invoice_no (invoices s))"
    and pr: "list_all (\<lambda>item. product_id item \<in> set (map p_id (products s))) (items invoice)"
    and qs: "list_all (\<lambda>item. sql_int (quantity item)) (items invoice)"
    and kr: "sql_int (next_rowid (map i_id (invoices s)))"
  shows "\<exists>rows.
     map (\<lambda>row. (ii_invoice_id row, ii_product_id row, ii_quantity row, ii_unit_price row)) rows =
     map (\<lambda>item. (k, product_id item, quantity item,
                   p_price (the (select_product s (product_id item))))) (items invoice) \<and>
     distinct (map ii_id (invoice_items s @ rows)) \<and>
     create_invoice s invoice now =
       (Inr \<lparr>r_id = k, r_invoice_no = invoice_no invoice, r_issue_date = issue_date invoice,
             r_due_date = due_date invoice,
             r_client = \<lparr>cr_id = c_id c, cr_name = c_name c, cr_address = c_address c,
                         cr_company_registration_no = c_company_registration_no c\<rparr>,
             r_items = map (\<lambda>row. \<lparr>item_id = ii_id row, item_product_id = ii_product_id row,
                             item_product_name = p_name (the (select_product s (ii_product_id row))),
                             item_quantity = ii_quantity row, item_unit_price = ii_unit_price row,
                             item_subtotal = ii_unit_price row * of_int (ii_quantity row)\<rparr>) rows,
             r_tax = tax invoice, r_subtotal = S, r_tax_amount = S * (tax invoice / 100),
             r_total = S + S * (tax invoice / 100)\<rparr>,
        s\<lparr>invoices := invoices s @
             [\<lparr>i_id = k, i_invoice_no = invoice_no invoice, i_issue_date = issue_date invoice,
               i_due_date = due_date invoice, i_client_id = client_id invoice,
               i_tax = tax invoice, i_total = S + S * (tax invoice / 100),
               i_created_at = now\<rparr>],
           invoice_items := invoice_items s @ rows\<rparr>)"
proof -
  define new where "new = \<lparr>i_id = k, i_invoice_no = invoice_no invoice,
     i_issue_date = issue_date invoice, i_due_date = due_date invoice,
     i_client_id = client_id invoice, i_tax = tax invoice,
     i_total = S + S * (tax invoice / 100), i_created_at = now\<rparr>"
  define s1 where "s1 = s\<lparr>invoices := invoices s @ [new]\<rparr>"
  from wf have rp: "list_all (\<lambda>p. sql_int (p_id p)) (products s)"
    and rc: "list_all (\<lambda>c. sql_int (c_id c)) (clients s)" by (simp_all add: wf_db_def)
  have k: "sql_int k" using kr by (simp add: k_def)
  have all_ok: "sql_int (product_id item) \<and> product_id item \<in> set (map p_id (products s)) \<and>
      sql_int (quantity item) \<and> fits_float (quantity item)"
    if "item \<in> set (items invoice)" for item
  proof -
    from that pr have m: "product_id item \<in> set (map p_id (products s))"
      by (simp add: list_all_iff)
    from that qs have q: "sql_int (quantity item)" by (simp add: list_all_iff)
    from rp m have "sql_int (product_id item)" by (rule sql_int_stored)
    with m q sql_int_fits_float [OF q] show ?thesis by simp
  qed
  have pr1: "list_all (\<lambda>item. sql_int (product_id item) \<and>
                     product_id item \<in> set (map p_id (products s1)) \<and>
                     sql_int (quantity item)) (items invoice)"
    using all_ok by (simp add: s1_def list_all_iff)
  have pr0: "list_all (\<lambda>item. sql_int (product_id item) \<and>
                     product_id item \<in> set (map p_id (products s)) \<and>
                     fits_float (quantity item)) (items invoice)"
    using all_ok by (simp add: list_all_iff)
  from insert_items_ok [OF k pr1] obtain rows where
    ins: "insert_items s1 k (items invoice) = (Inr (), s1\<lparr>invoice_items := invoice_items s1 @ rows\<rparr>)"
    and rows: "map (\<lambda>row. (ii_invoice_id row, ii_product_id row, ii_quantity row, ii_unit_price row)) rows =
       map (\<lambda>item. (k, product_id item, quantity item,
                     p_price (the (select_product s (product_id item))))) (items invoice)"
    and dist: "distinct (map ii_id (invoice_items s1)) \<longrightarrow> distinct (map ii_id (invoice_items s1 @ rows))"
    by (auto simp: s1_def)
  define s2 where "s2 = s1\<lparr>invoice_items := invoice_items s @ rows\<rparr>"
  have ins2: "insert_items s1 k (items invoice) = (Inr (), s2)"
    using ins by (simp add: s2_def s1_def)
  have dist2: "distinct (map ii_id (invoice_items s @ rows))"
    using dist wf by (simp add: s1_def wf_db_def)
  \<comment> \<open>the rows inserted for the new invoice\<close>
  have row_props: "ii_invoice_id row = k \<and> ii_product_id row \<in> set (map p_id (products s))"
    if "row \<in> set rows" for row
  proof -
    from that have "(ii_invoice_id row, ii_product_id row, ii_quantity row, ii_unit_price row)
          \<in> set (map (\<lambda>row. (ii_invoice_id row, ii_product_id row, ii_quantity row, ii_unit_price row)) rows)"
      by (simp add: image_iff) blast
    then have "(ii_invoice_id row, ii_product_id row, ii_quantity row, ii_unit_price row)
          \<in> set (map (\<lambda>item. (k, product_id item, quantity item,
                     p_price (the (select_product s (product_id item))))) (items invoice))"
      by (simp only: rows)
    then obtain item where "item \<in> set (items invoice)" "ii_invoice_id row = k"
      "ii_product_id row = product_id item" by auto
    with pr show ?thesis by (auto simp: list_all_iff)
  qed
  \<comment> \<open>the invoice row read back\<close>
  have fresh: "k \<notin> set (map i_id (invoices s))"
    unfolding k_def by (rule next_rowid_fresh)
  from find_filter_Cons_id [OF cl] obtain rest where
    cf: "filter (\<lambda>c'. client_id invoice = c_id c') (clients s) = c # rest" by blast
  have old_inv: "concat (map (\<lambda>i. if i_id i = k
                     then map (Pair i) (filter (\<lambda>c. i_client_id i = c_id c) (clients s))
                     else []) (invoices s)) = []"
    using fresh by (intro concat_map_empty) auto
  have sel_inv: "select_invoice_with_client s2 k = (new, c) # map (Pair new) rest"
    unfolding select_invoice_with_client_eq
    using old_inv cf by (simp add: s2_def s1_def new_def)
  \<comment> \<open>the item rows read back\<close>
  have old_items: "concat (map (\<lambda>ii. if ii_invoice_id ii = k
                      then map (Pair ii) (filter (\<lambda>p. ii_product_id ii = p_id p) (products s))
                      else []) (invoice_items s)) = []"
  proof (intro concat_map_empty)
    fix ii assume "ii \<in> set (invoice_items s)"
    with wf have "ii_invoice_id ii \<in> set (map i_id (invoices s))"
      by (auto simp: wf_db_def list_all_iff)
    with fresh have "ii_invoice_id ii \<noteq> k" by auto
    then show "(if ii_invoice_id ii = k
                then map (Pair ii) (filter (\<lambda>p. ii_product_id ii = p_id p) (products s))
                else []) = []" by simp
  qed
  have new_items: "concat (map (\<lambda>ii. if ii_invoice_id ii = k
                      then map (Pair ii) (filter (\<lambda>p. ii_product_id ii = p_id p) (products s))
                      else []) rows) =
        map (\<lambda>row. (row, the (select_product s (ii_product_id row)))) rows"
  proof (intro concat_map_single)
    fix row assume r: "row \<in> set rows"
    from row_props [OF r] obtain p where p: "select_product s (ii_product_id row) = Some p"
      using select_product_Some by blast
    from wf have "distinct (map p_id (products s))" by (simp add: wf_db_def)
    from filter_product_unique [OF this p] row_props [OF r] p
    show "(if ii_invoice_id row = k
           then map (Pair row) (filter (\<lambda>p. ii_product_id row = p_id p) (products s))
           else []) = [(row, the (select_product s (ii_product_id row)))]"
      by simp
  qed
  have sel_items: "select_items_with_product s2 k =
        map (\<lambda>row. (row, the (select_product s (ii_product_id row)))) rows"
  proof -
    have "products s2 = products s" and "invoice_items s2 = invoice_items s @ rows"
      by (simp_all add: s2_def s1_def)
    then show ?thesis
      unfolding select_items_with_product_eq
      by (simp only: map_append concat_append old_items new_items append_Nil)
  qed
  \<comment> \<open>the two computations of the subtotal agree\<close>
  have "map (\<lambda>row. ii_unit_price row * of_int (ii_quantity row)) rows =
        map (\<lambda>(a, b, q, u). u * of_int q)
          (map (\<lambda>row. (ii_invoice_id row, ii_product_id row, ii_quantity row, ii_unit_price row)) rows)"
    by simp
  also have "\<dots> = map (\<lambda>item. p_price (the (select_product s (product_id item))) *
                              of_int (quantity item)) (items invoice)"
    by (simp only: rows) simp
  finally have sum_rows: "sum_list (map (\<lambda>row. ii_unit_price row * of_int (ii_quantity row)) rows) = S"
    by (simp add: S_def)
  have get: "get_invoice s2 k =
       Inr \<lparr>r_id = k, r_invoice_no = invoice_no invoice, r_issue_date = issue_date invoice,
             r_due_date = due_date invoice,
             r_client = \<lparr>cr_id = c_id c, cr_name = c_name c, cr_address = c_address c,
                         cr_company_registration_no = c_company_registration_no c\<rparr>,
             r_items = map (\<lambda>row. \<lparr>item_id = ii_id row, item_product_id = ii_product_id row,
                             item_product_name = p_name (the (select_product s (ii_product_id row))),
                             item_quantity = ii_quantity row, item_unit_price = ii_unit_price row,
                             item_subtotal = ii_unit_price row * of_int (ii_quantity row)\<rparr>) rows,
             r_tax = tax invoice, r_subtotal = S, r_tax_amount = S * (tax invoice / 100),
             r_total = S + S * (tax invoice / 100)\<rparr>"
    using sum_rows
    by (simp add: get_invoice_in_range [OF k] sel_inv sel_items build_items_eq new_def comp_def)
  \<comment> \<open>the checks and the first loop\<close>
  from validate_items_ok [OF pr0, of 0 "[]"] obtain v where
    val: "validate_items s (items invoice) 0 [] = Inr (S, v)" by (auto simp: S_def)
  have n: "find (\<lambda>i. i_invoice_no i = invoice_no invoice) (invoices s) = None"
    using no by (rule find_id_None)
  from cl have "find (\<lambda>c. c_id c = client_id invoice) (clients s) \<noteq> None" by simp
  then have "client_id invoice \<in> set (map c_id (clients s))" by (rule find_id_Some_rev)
  with rc have crange: "sql_int (client_id invoice)" by (rule sql_int_stored)
  have "create_invoice_body s invoice now =
        (case insert_items s1 k (items invoice) of
           (Inl e, s2) \<Rightarrow> (Inl e, s2)
         | (Inr _, s2) \<Rightarrow>
             (case get_invoice s2 k of
                Inl e \<Rightarrow> (Inl e, s2)
              | Inr response \<Rightarrow> (Inr response, s2)))"
    unfolding create_invoice_body_def k_def s1_def new_def
    using cl n val crange by (simp add: Let_def)
  then have body: "create_invoice_body s invoice now = (Inr (projr (get_invoice s2 k)), s2)"
    by (simp add: ins2 get)
  have "create_invoice s invoice now = (Inr (projr (get_invoice s2 k)), s2)"
    using body by (simp add: create_invoice_def with_get_db_def)
  with get rows dist2 show ?thesis
    by (intro exI [of _ rows]) (simp add: s2_def s1_def new_def)
qed


lemma find_id_Some_ex: "k \<in> set (map f xs) \<Longrightarrow> \<exists>x. find (\<lambda>x. f x = k) xs = Some x"
  using find_id_Some [of k f xs] by auto

lemma find_snoc_fresh:
  "k \<notin> set (map f xs) \<Longrightarrow> f y = k \<Longrightarrow> find (\<lambda>x. f x = k) (xs @ [y]) = Some y"
  by (induction xs) auto

lemma map_eq_list_all2: "map f xs = map g ys \<Longrightarrow> list_all2 (\<lambda>x y. f x = g y) xs ys"
proof -
  assume "map f xs = map g ys"
  then have "list_all2 (=) (map f xs) (map g ys)" by (simp add: list.rel_eq)
  then show ?thesis by (simp add: list_all2_map1 list_all2_map2)
qed

lemma list_all2_left: "list_all2 (\<lambda>x y. P x) xs ys \<Longrightarrow> x \<in> set xs \<Longrightarrow> P x"
  by (induction rule: list_all2_induct) auto

lemma filter_append_new:
  assumes "\<And>x. x \<in> set xs \<Longrightarrow> \<not> P x" and "\<And>y. y \<in> set ys \<Longrightarrow> P y"
  shows "filter P (xs @ ys) = ys"
proof -
  have "filter P xs = []" using assms(1) by (simp add: filter_empty_conv)
  moreover have "filter P ys = ys" using assms(2) by (simp add: filter_id_conv)
  ultimately show ?thesis by simp
qed

section \<open>Creation: the amounts of a successful request\<close>

lemma create_invoice_totals_aux:
  assumes wf: "wf_db s"
    and cl: "client_id invoice \<in> set (map c_id (clients s))"
    and no: "invoice_no invoice \<notin> set (map i_invoice_no (invoices s))"
    and pr: "list_all (\<lambda>item. product_id item \<in> set (map p_id (products s))) (items invoice)"
    and qs: "list_all (\<lambda>item. sql_int (quantity item)) (items invoice)"
    and kr: "sql_int (next_rowid (map i_id (invoices s)))"
  shows "\<exists>r s' row.
     create_invoice s invoice now = (Inr r, s') \<and>
     list_all2 (\<lambda>ri item. item_product_id ri = product_id item \<and>
                  item_quantity ri = quantity item \<and>
                  map_option p_price (select_product s (product_id item)) = Some (item_unit_price ri) \<and>
                  item_subtotal ri = of_int (item_quantity ri) * item_unit_price ri)
       (r_items r) (items invoice) \<and>
     r_subtotal r = sum_list (map item_subtotal (r_items r)) \<and>
     r_tax r = tax invoice \<and>
     r_tax_amount r = r_subtotal r * tax invoice / 100 \<and>
     r_total r = r_subtotal r + r_tax_amount r \<and>
     r_total r = sum_list (map (\<lambda>ri. of_int (item_quantity ri) * item_unit_price ri) (r_items r)) *
                   (1 + tax invoice / 100) \<and>
     find (\<lambda>i. i_id i = r_id r) (invoices s') = Some row \<and>
     i_tax row = tax invoice \<and> i_total row = r_total r \<and>
     map (\<lambda>ii. (ii_product_id ii, ii_quantity ii, ii_unit_price ii))
       (filter (\<lambda>ii. ii_invoice_id ii = r_id r) (invoice_items s')) =
     map (\<lambda>ri. (item_product_id ri, item_quantity ri, item_unit_price ri)) (r_items r)"
proof -
  define k where "k = next_rowid (map i_id (invoices s))"
  define S where "S = sum_list (map (\<lambda>item. p_price (the (select_product s (product_id item))) *
                                    of_int (quantity item)) (items invoice))"
  from find_id_Some_ex [OF cl] obtain c where
    c: "find (\<lambda>c. c_id c = client_id invoice) (clients s) = Some c" by blast
  define f :: "invoice_items_row \<Rightarrow> InvoiceItemResponse" where "f = (\<lambda>row. \<lparr>item_id = ii_id row, item_product_id = ii_product_id row,
      item_product_name = p_name (the (select_product s (ii_product_id row))),
      item_quantity = ii_quantity row, item_unit_price = ii_unit_price row,
      item_subtotal = ii_unit_price row * of_int (ii_quantity row)\<rparr>)"
  define new where "new = \<lparr>i_id = k, i_invoice_no = invoice_no invoice,
      i_issue_date = issue_date invoice, i_due_date = due_date invoice,
      i_client_id = client_id invoice, i_tax = tax invoice,
      i_total = S + S * (tax invoice / 100), i_created_at = now\<rparr>"
  define r where "r rows0 = \<lparr>r_id = k, r_invoice_no = invoice_no invoice, r_issue_date = issue_date invoice,
      r_due_date = due_date invoice,
      r_client = \<lparr>cr_id = c_id c, cr_name = c_name c, cr_address = c_address c,
                  cr_company_registration_no = c_company_registration_no c\<rparr>,
      r_items = map f rows0, r_tax = tax invoice, r_subtotal = S,
      r_tax_amount = S * (tax invoice / 100), r_total = S + S * (tax invoice / 100)\<rparr>" for rows0
  from create_invoice_ok [OF wf c no pr qs kr, of now] obtain rows where
    rows: "map (\<lambda>row. (ii_invoice_id row, ii_product_id row, ii_quantity row, ii_unit_price row)) rows =
       map (\<lambda>item. (k, product_id item, quantity item,
                     p_price (the (select_product s (product_id item))))) (items invoice)"
    and cr: "create_invoice s invoice now =
       (Inr (r rows), s\<lparr>invoices := invoices s @ [new], invoice_items := invoice_items s @ rows\<rparr>)"
    unfolding k_def S_def r_def f_def new_def by blast
  define s' where "s' = s\<lparr>invoices := invoices s @ [new], invoice_items := invoice_items s @ rows\<rparr>"
  have fresh: "k \<notin> set (map i_id (invoices s))"
    unfolding k_def by (rule next_rowid_fresh)
  \<comment> \<open>items of the response against the request\<close>
  have rel0: "list_all2 (\<lambda>row item.
        (ii_invoice_id row, ii_product_id row, ii_quantity row, ii_unit_price row) =
        (k, product_id item, quantity item, p_price (the (select_product s (product_id item)))))
        rows (items invoice)"
    using rows by (rule map_eq_list_all2)
  have rel1: "list_all2 (\<lambda>row item. item_product_id (f row) = product_id item \<and>
                  item_quantity (f row) = quantity item \<and>
                  map_option p_price (select_product s (product_id item)) = Some (item_unit_price (f row)) \<and>
                  item_subtotal (f row) = of_int (item_quantity (f row)) * item_unit_price (f row))
        rows (items invoice)"
  proof (rule list.rel_mono_strong [OF rel0])
    fix row :: invoice_items_row and item :: InvoiceItem
    assume "item \<in> set (items invoice)"
      and eq: "(ii_invoice_id row, ii_product_id row, ii_quantity row, ii_unit_price row) =
        (k, product_id item, quantity item, p_price (the (select_product s (product_id item))))"
    with pr have "product_id item \<in> set (map p_id (products s))"
      by (simp add: list_all_iff)
    from select_product_Some [OF this] obtain p where
      "select_product s (product_id item) = Some p" by blast
    with eq show "item_product_id (f row) = product_id item \<and>
                  item_quantity (f row) = quantity item \<and>
                  map_option p_price (select_product s (product_id item)) = Some (item_unit_price (f row)) \<and>
                  item_subtotal (f row) = of_int (item_quantity (f row)) * item_unit_price (f row)"
      by (simp add: f_def)
  qed
  have items_rel: "list_all2 (\<lambda>ri item. item_product_id ri = product_id item \<and>
                  item_quantity ri = quantity item \<and>
                  map_option p_price (select_product s (product_id item)) = Some (item_unit_price ri) \<and>
                  item_subtotal ri = of_int (item_quantity ri) * item_unit_price ri)
       (r_items (r rows)) (items invoice)"
    using rel1 by (simp add: r_def list_all2_map1)
  \<comment> \<open>the sums\<close>
  have "map (\<lambda>row. ii_unit_price row * of_int (ii_quantity row)) rows =
        map (\<lambda>(a, b, q, u). u * of_int q)
          (map (\<lambda>row. (ii_invoice_id row, ii_product_id row, ii_quantity row, ii_unit_price row)) rows)"
    by simp
  also have "\<dots> = map (\<lambda>item. p_price (the (select_product s (product_id item))) *
                              of_int (quantity item)) (items invoice)"
    by (simp only: rows) simp
  finally have sum_rows: "sum_list (map (\<lambda>row. ii_unit_price row * of_int (ii_quantity row)) rows) = S"
    by (simp add: S_def)
  have sub: "r_subtotal (r rows) = sum_list (map item_subtotal (r_items (r rows)))"
    using sum_rows by (simp add: r_def f_def comp_def)
  have sum2: "sum_list (map (\<lambda>ri. of_int (item_quantity ri) * item_unit_price ri) (r_items (r rows))) = S"
    using sum_rows by (simp add: r_def f_def comp_def mult.commute)
  have tot: "r_total (r rows) =
      sum_list (map (\<lambda>ri. of_int (item_quantity ri) * item_unit_price ri) (r_items (r rows))) *
        (1 + tax invoice / 100)"
    unfolding sum2 by (simp add: r_def algebra_simps)
  \<comment> \<open>the stored rows\<close>
  have stored: "find (\<lambda>i. i_id i = r_id (r rows)) (invoices s') = Some new"
    using fresh by (simp add: s'_def r_def find_snoc_fresh new_def)
  have row_k: "ii_invoice_id row = k" if "row \<in> set rows" for row
  proof -
    from rel0 have "list_all2 (\<lambda>row item. ii_invoice_id row = k) rows (items invoice)"
      by (rule list_all2_mono) simp
    from list_all2_left [OF this that] show ?thesis .
  qed
  have old_k: "ii_invoice_id ii \<noteq> k" if "ii \<in> set (invoice_items s)" for ii
  proof -
    from that wf have "ii_invoice_id ii \<in> set (map i_id (invoices s))"
      by (auto simp: wf_db_def list_all_iff)
    with fresh show ?thesis by auto
  qed
  have "filter (\<lambda>ii. ii_invoice_id ii = k) (invoice_items s @ rows) = rows"
    using old_k row_k by (intro filter_append_new) auto
  then have stored_items: "map (\<lambda>ii. (ii_product_id ii, ii_quantity ii, ii_unit_price ii))
       (filter (\<lambda>ii. ii_invoice_id ii = r_id (r rows)) (invoice_items s')) =
     map (\<lambda>ri. (item_product_id ri, item_quantity ri, item_unit_price ri)) (r_items (r rows))"
    by (simp add: s'_def r_def f_def comp_def)
  have misc: "r_tax (r rows) = tax invoice"
    "r_tax_amount (r rows) = r_subtotal (r rows) * tax invoice / 100"
    "r_total (r rows) = r_subtotal (r rows) + r_tax_amount (r rows)"
    "i_tax new = tax invoice" "i_total new = r_total (r rows)"
    by (simp_all add: r_def new_def)
  from cr have cr': "create_invoice s invoice now = (Inr (r rows), s')" by (simp add: s'_def)
  show ?thesis
    apply (rule exI [of _ "r rows"])
    apply (rule exI [of _ s'])
    apply (rule exI [of _ new])
    apply (intro conjI)
    apply (rule cr')
    apply (rule items_rel)
    apply (rule sub)
    apply (rule misc(1))
    apply (rule misc(2))
    apply (rule misc(3))
    apply (rule tot)
    apply (rule stored)
    apply (rule misc(4))
    apply (rule misc(5))
    apply (rule stored_items)
    done
qed





text \<open>
  Claim C10. A request with an empty item list, an existing client and a new invoice number,
  for any tax rate that is not negative, on a database that meets the schema's constraints
  and can still assign a 64-bit invoice id, succeeds with status 201; the returned invoice
  has no items and subtotal, tax amount and total 0; no item row is written and the stored
  total is 0.
\<close>

theorem create_invoice_no_items:
  assumes wf: "wf_db s"
    and cl: "client_id invoice \<in> set (map c_id (clients s))"
    and no: "invoice_no invoice \<notin> set (map i_invoice_no (invoices s))"
    and empty: "items invoice = []"
    and tax: "0 \<le> tax invoice"
    and kr: "sql_int (next_rowid (map i_id (invoices s)))"
  shows "\<exists>r s'. create_invoice s invoice now = (Inr r, s') \<and>
           create_invoice_status (Inr r) = 201 \<and>
           r_items r = [] \<and> r_subtotal r = 0 \<and> r_tax_amount r = 0 \<and> r_total r = 0 \<and>
           invoice_items s' = invoice_items s \<and>
           map i_total (filter (\<lambda>i. i_id i = r_id r) (invoices s')) = [0]"
proof -
  from find_id_Some_ex [OF cl] obtain c where
    c: "find (\<lambda>c. c_id c = client_id invoice) (clients s) = Some c" by blast
  have pr: "list_all (\<lambda>item. product_id item \<in> set (map p_id (products s))) (items invoice)"
    by (simp add: empty)
  have qs: "list_all (\<lambda>item. sql_int (quantity item)) (items invoice)"
    by (simp add: empty)
  have old: "filter (\<lambda>i. i_id i = next_rowid (map i_id (invoices s))) (invoices s) = []"
  proof -
    define k where "k = next_rowid (map i_id (invoices s))"
    have "k \<notin> set (map i_id (invoices s))"
      unfolding k_def by (rule next_rowid_fresh)
    then have "filter (\<lambda>i. i_id i = k) (invoices s) = []"
      by (auto simp: filter_empty_conv)
    then show ?thesis by (simp add: k_def)
  qed
  from create_invoice_ok [OF wf c no pr qs kr, of now] obtain rows r s' where
    rows: "map (\<lambda>row. (ii_invoice_id row, ii_product_id row, ii_quantity row, ii_unit_price row)) rows = []"
    and cr: "create_invoice s invoice now = (Inr r, s')"
    and r: "r = \<lparr>r_id = next_rowid (map i_id (invoices s)), r_invoice_no = invoice_no invoice,
             r_issue_date = issue_date invoice, r_due_date = due_date invoice,
             r_client = \<lparr>cr_id = c_id c, cr_name = c_name c, cr_address = c_address c,
                         cr_company_registration_no = c_company_registration_no c\<rparr>,
             r_items = map (\<lambda>row. \<lparr>item_id = ii_id row, item_product_id = ii_product_id row,
                             item_product_name = p_name (the (select_product s (ii_product_id row))),
                             item_quantity = ii_quantity row, item_unit_price = ii_unit_price row,
                             item_subtotal = ii_unit_price row * of_int (ii_quantity row)\<rparr>) rows,
             r_tax = tax invoice, r_subtotal = 0, r_tax_amount = 0, r_total = 0\<rparr>"
    and s': "s' = s\<lparr>invoices := invoices s @
             [\<lparr>i_id = next_rowid (map i_id (invoices s)), i_invoice_no = invoice_no invoice,
               i_issue_date = issue_date invoice,
               i_due_date = due_date invoice, i_client_id = client_id invoice,
               i_tax = tax invoice, i_total = 0, i_created_at = now\<rparr>],
           invoice_items := invoice_items s @ rows\<rparr>"
    by (auto simp: empty)
  from rows have "rows = []" by simp
  with cr r s' old show ?thesis
    by (intro exI [of _ r] exI [of _ s']) (simp add: create_invoice_status_def)
qed

theorem create_invoice_no_items_witness:
  "wf_db ex_db1 \<and>
   create_invoice ex_db1 (ex_invoice\<lparr>invoice_no := ''INV-2'', items := []\<rparr>) 6 =
     (Inr (ex_response\<lparr>r_id := 2, r_invoice_no := ''INV-2'', r_items := [], r_subtotal := 0,
                       r_tax_amount := 0, r_total := 0\<rparr>),
      ex_db1\<lparr>invoices := invoices ex_db1 @
               [\<lparr>i_id = 2, i_invoice_no = ''INV-2'', i_issue_date = ''2024-01-01'',
                 i_due_date = ''2024-02-01'', i_client_id = 1, i_tax = 10, i_total = 0,
                 i_created_at = 6\<rparr>]\<rparr>) \<and>
   create_invoice_status
     (fst (create_invoice ex_db1 (ex_invoice\<lparr>invoice_no := ''INV-2'', items := []\<rparr>) 6)) = 201"
proof -
  let ?x = "ex_invoice\<lparr>invoice_no := ''INV-2'', items := []\<rparr>"
  have h1: "wf_db ex_db1" by (simp add: wf_db_def sql_int_def ex_defs)
  have h2: "client_id ?x \<in> set (map c_id (clients ex_db1))" by (simp add: ex_defs)
  have h3: "invoice_no ?x \<notin> set (map i_invoice_no (invoices ex_db1))" by (simp add: ex_defs)
  have h4: "items ?x = []" by simp
  have h5: "0 \<le> tax ?x" by (simp add: ex_defs)
  have c: "create_invoice ex_db1 ?x 6 =
     (Inr (ex_response\<lparr>r_id := 2, r_invoice_no := ''INV-2'', r_items := [], r_subtotal := 0,
                       r_tax_amount := 0, r_total := 0\<rparr>),
      ex_db1\<lparr>invoices := invoices ex_db1 @
               [\<lparr>i_id = 2, i_invoice_no = ''INV-2'', i_issue_date = ''2024-01-01'',
                 i_due_date = ''2024-02-01'', i_client_id = 1, i_tax = 10, i_total = 0,
                 i_created_at = 6\<rparr>]\<rparr>)"
    by (simp add: ex_defs eval_defs)
  have h6: "sql_int (next_rowid (map i_id (invoices ex_db1)))"
    by (simp add: sql_int_def next_rowid_def ex_defs)
  from create_invoice_no_items [OF h1 h2 h3 h4 h5 h6, of 6]
  have "create_invoice_status (fst (create_invoice ex_db1 ?x 6)) = 201" by auto
  with h1 c show ?thesis by simp
qed

section \<open>Reading an invoice\<close>

lemma concat_map_pick:
  "distinct (map f xs) \<Longrightarrow> x \<in> set xs \<Longrightarrow>
   concat (map (\<lambda>y. if f y = f x then g y else []) xs) = g x"
proof (induction xs)
  case Nil
  then show ?case by simp
next
  case (Cons y ys)
  show ?case
  proof (cases "x = y")
    case True
    with Cons.prems have "\<And>z. z \<in> set ys \<Longrightarrow> f z \<noteq> f y" by (auto simp: image_iff)
    then have "concat (map (\<lambda>z. if f z = f y then g z else []) ys) = []"
      by (intro concat_map_empty) simp
    with True show ?thesis by simp
  next
    case False
    with Cons.prems have xin: "x \<in> set ys" by simp
    with Cons.prems have "f y \<noteq> f x" by (auto simp: image_iff)
    with Cons xin show ?thesis by simp
  qed
qed

lemma joined_products:
  assumes "distinct (map p_id ps)"
  shows "map fst (map (Pair (ii::invoice_items_row)) (filter (\<lambda>p. ii_product_id ii = p_id p) ps)) =
         (if ii_product_id ii \<in> set (map p_id ps) then [ii] else [])"
proof (cases "ii_product_id ii \<in> set (map p_id ps)")
  case True
  then obtain p where p: "p \<in> set ps" "p_id p = ii_product_id ii" by auto
  from filter_unique [OF assms p(1)] p(2)
  have "filter (\<lambda>q. ii_product_id ii = p_id q) ps = [p]" by simp
  with True show ?thesis by simp
next
  case False
  then have "filter (\<lambda>q. ii_product_id ii = p_id q) ps = []"
    by (auto simp: filter_empty_conv)
  with False show ?thesis by simp
qed

lemma select_items_with_product_fst:
  assumes "distinct (map p_id (products s))"
  shows "map fst (select_items_with_product s k) =
         filter (\<lambda>ii. ii_invoice_id ii = k \<and> ii_product_id ii \<in> set (map p_id (products s)))
           (invoice_items s)"
proof -
  have "map fst (concat (map (\<lambda>ii. if ii_invoice_id ii = k
                      then map (Pair ii) (filter (\<lambda>p. ii_product_id ii = p_id p) (products s))
                      else []) xs)) =
        filter (\<lambda>ii. ii_invoice_id ii = k \<and> ii_product_id ii \<in> set (map p_id (products s))) xs"
    for xs :: "invoice_items_row list"
  proof (induction xs)
    case Nil
    then show ?case by simp
  next
    case (Cons ii xs)
    have "map fst (if ii_invoice_id ii = k
                   then map (Pair ii) (filter (\<lambda>p. ii_product_id ii = p_id p) (products s))
                   else []) =
          (if ii_invoice_id ii = k \<and> ii_product_id ii \<in> set (map p_id (products s))
           then [ii] else [])"
      using joined_products [OF assms, of ii] by (auto split: if_splits)
    with Cons show ?case by simp
  qed
  then show ?thesis unfolding select_items_with_product_eq .
qed

text \<open>
  Claim C5, as amended. For an invoice id present in a database that meets the schema's
  constraints, whose client row exists, \<open>get_invoice\<close> returns a response in which the items
  are the stored item rows of the invoice whose product row exists, \<open>subtotal\<close> is recomputed
  as the sum of unit price times quantity over those rows, \<open>tax_amount\<close> is recomputed as
  \<open>subtotal * tax / 100\<close> from the stored tax rate, and \<open>total\<close> is the value of the stored
  \<open>total\<close> column: the total is read, not recomputed.
\<close>

theorem get_invoice_recomputes:
  assumes wf: "wf_db s"
    and inv: "find (\<lambda>i. i_id i = invoice_id) (invoices s) = Some i"
    and cl: "i_client_id i \<in> set (map c_id (clients s))"
  shows "\<exists>r. get_invoice s invoice_id = Inr r \<and>
     map (\<lambda>ri. (item_id ri, item_product_id ri, item_quantity ri, item_unit_price ri,
                 item_subtotal ri)) (r_items r) =
     map (\<lambda>ii. (ii_id ii, ii_product_id ii, ii_quantity ii, ii_unit_price ii,
                 ii_unit_price ii * of_int (ii_quantity ii)))
       (filter (\<lambda>ii. ii_invoice_id ii = invoice_id \<and>
                      ii_product_id ii \<in> set (map p_id (products s))) (invoice_items s)) \<and>
     r_subtotal r =
       sum_list (map (\<lambda>ii. ii_unit_price ii * of_int (ii_quantity ii))
         (filter (\<lambda>ii. ii_invoice_id ii = invoice_id \<and>
                        ii_product_id ii \<in> set (map p_id (products s))) (invoice_items s))) \<and>
     r_tax r = i_tax i \<and>
     r_tax_amount r = r_subtotal r * i_tax i / 100 \<and>
     r_total r = i_total i"
proof -
  from inv have i_in: "i \<in> set (invoices s)" and i_k: "i_id i = invoice_id"
    by (auto simp: find_Some_iff)
  from wf have d_i: "distinct (map i_id (invoices s))" and d_p: "distinct (map p_id (products s))"
    and r_i: "list_all (\<lambda>i. sql_int (i_id i)) (invoices s)"
    by (simp_all add: wf_db_def)
  from r_i i_in i_k have kr: "sql_int invoice_id" by (auto simp: list_all_iff)
  from find_id_Some_ex [OF cl] obtain c where
    "find (\<lambda>c. c_id c = i_client_id i) (clients s) = Some c" by blast
  from find_filter_Cons_id [OF this] obtain rest where
    cf: "filter (\<lambda>c'. i_client_id i = c_id c') (clients s) = c # rest" by blast
  have "select_invoice_with_client s invoice_id =
        map (Pair i) (filter (\<lambda>c. i_client_id i = c_id c) (clients s))"
    unfolding select_invoice_with_client_eq i_k [symmetric]
    using concat_map_pick [OF d_i i_in,
        of "\<lambda>i. map (Pair i) (filter (\<lambda>c. i_client_id i = c_id c) (clients s))"]
    by simp
  then have sel: "select_invoice_with_client s invoice_id = (i, c) # map (Pair i) rest"
    by (simp add: cf)
  define J where "J = select_items_with_product s invoice_id"
  have J_fst: "map fst J =
      filter (\<lambda>ii. ii_invoice_id ii = invoice_id \<and>
                     ii_product_id ii \<in> set (map p_id (products s))) (invoice_items s)"
    unfolding J_def by (rule select_items_with_product_fst [OF d_p])
  define f :: "invoice_items_row \<times> products_row \<Rightarrow> InvoiceItemResponse" where
    "f = (\<lambda>(ii, p). \<lparr>item_id = ii_id ii, item_product_id = ii_product_id ii,
                          item_product_name = p_name p, item_quantity = ii_quantity ii,
                          item_unit_price = ii_unit_price ii,
                          item_subtotal = ii_unit_price ii * of_int (ii_quantity ii)\<rparr>)"
  define a :: "invoice_items_row \<times> products_row \<Rightarrow> rat" where
    "a = (\<lambda>(ii, p). ii_unit_price ii * of_int (ii_quantity ii))"
  have sum_J: "sum_list (map a J) =
        sum_list (map (\<lambda>ii. ii_unit_price ii * of_int (ii_quantity ii)) (map fst J))"
    by (induction J) (auto simp: a_def)
  have items_J: "map (\<lambda>ri. (item_id ri, item_product_id ri, item_quantity ri, item_unit_price ri,
                 item_subtotal ri)) (map f J) =
     map (\<lambda>ii. (ii_id ii, ii_product_id ii, ii_quantity ii, ii_unit_price ii,
                 ii_unit_price ii * of_int (ii_quantity ii))) (map fst J)"
    by (induction J) (auto simp: f_def)
  define R where "R = \<lparr>r_id = i_id i, r_invoice_no = i_invoice_no i,
           r_issue_date = i_issue_date i, r_due_date = i_due_date i,
           r_client = \<lparr>cr_id = c_id c, cr_name = c_name c, cr_address = c_address c,
                       cr_company_registration_no = c_company_registration_no c\<rparr>,
           r_items = map f J, r_tax = i_tax i, r_subtotal = sum_list (map a J),
           r_tax_amount = sum_list (map a J) * (i_tax i / 100), r_total = i_total i\<rparr>"
  have g: "get_invoice s invoice_id = Inr R"
    by (simp add: get_invoice_in_range [OF kr] sel build_items_eq J_def f_def a_def R_def)
  have R: "r_items R = map f J" "r_subtotal R = sum_list (map a J)" "r_tax R = i_tax i"
    "r_tax_amount R = r_subtotal R * i_tax i / 100" "r_total R = i_total i"
    by (simp_all add: R_def)
  show ?thesis
    unfolding J_fst [symmetric]
    apply (rule exI [of _ R])
    apply (intro conjI)
         apply (rule g)
        apply (simp only: R items_J)
       apply (simp only: R sum_J)
      apply (rule R(3))
     apply (rule R(4))
    apply (rule R(5))
    done
qed

theorem get_invoice_recomputes_witness:
  "wf_db odd_total_db \<and>
   get_invoice odd_total_db 1 = Inr (ex_response\<lparr>r_total := 100\<rparr>) \<and>
   r_subtotal (ex_response\<lparr>r_total := 100\<rparr>) = 30 \<and>
   r_tax_amount (ex_response\<lparr>r_total := 100\<rparr>) = 3 \<and>
   r_total (ex_response\<lparr>r_total := 100\<rparr>) = i_total (hd (invoices odd_total_db))"
proof -
  have h1: "wf_db odd_total_db" by (simp add: wf_db_def sql_int_def ex_defs)
  have h2: "find (\<lambda>i. i_id i = 1) (invoices odd_total_db) = Some (hd (invoices odd_total_db))"
    by (simp add: ex_defs)
  have h3: "i_client_id (hd (invoices odd_total_db)) \<in> set (map c_id (clients odd_total_db))"
    by (simp add: ex_defs)
  have g: "get_invoice odd_total_db 1 = Inr (ex_response\<lparr>r_total := 100\<rparr>)"
    by (simp add: ex_defs eval_defs)
  from get_invoice_recomputes [OF h1 h2 h3] g
  have "r_total (ex_response\<lparr>r_total := 100\<rparr>) = i_total (hd (invoices odd_total_db))"
    by auto
  moreover have "r_subtotal (ex_response\<lparr>r_total := 100\<rparr>) = 30 \<and>
     r_tax_amount (ex_response\<lparr>r_total := 100\<rparr>) = 3" by (simp add: ex_defs)
  ultimately show ?thesis using h1 g by simp
qed

text \<open>
  The claim as first stated also has \<open>total\<close> recomputed from the item rows. In
  \<open>odd_total_db\<close> the invoice row stores a total of 100 while its item row (3 at 10) and tax
  rate (10 percent) give 33: the response carries subtotal 30 and tax amount 3, and total 100.
\<close>

theorem get_invoice_total_counterexample:
  "get_invoice odd_total_db 1 = Inr (ex_response\<lparr>r_total := 100\<rparr>) \<and>
   map i_total (invoices odd_total_db) = [100] \<and>
   map ii_unit_price (invoice_items odd_total_db) = [10] \<and>
   map ii_quantity (invoice_items odd_total_db) = [3] \<and>
   map i_tax (invoices odd_total_db) = [10] \<and>
   r_subtotal (ex_response\<lparr>r_total := 100\<rparr>) + r_tax_amount (ex_response\<lparr>r_total := 100\<rparr>) = 33 \<and>
   r_total (ex_response\<lparr>r_total := 100\<rparr>) \<noteq> 33"
  by (simp add: ex_defs eval_defs)


lemma select_items_with_product_key:
  "(ii, p) \<in> set (select_items_with_product s k) \<Longrightarrow> ii_product_id ii = p_id p"
  unfolding select_items_with_product_eq by (auto split: if_splits)

lemma select_items_with_product_change:
  "select_items_with_product (change_product s pid name price) k =
   map (\<lambda>(ii, p). (ii, if p_id p = pid then p\<lparr>p_name := name, p_price := price\<rparr> else p))
     (select_items_with_product s k)"
proof -
  define g :: "products_row \<Rightarrow> products_row" where
    "g = (\<lambda>p. if p_id p = pid then p\<lparr>p_name := name, p_price := price\<rparr> else p)"
  have pg: "p_id (g p) = p_id p" for p by (simp add: g_def)
  have inner: "map (Pair ii) (filter (\<lambda>p. ii_product_id ii = p_id p) (map g ps)) =
        map (\<lambda>(ii, p). (ii, g p)) (map (Pair ii) (filter (\<lambda>p. ii_product_id ii = p_id p) ps))"
    for ii :: invoice_items_row and ps :: "products_row list"
    by (simp add: filter_map comp_def pg)
  have gen: "concat (map (\<lambda>ii. if ii_invoice_id ii = k
                      then map (Pair ii) (filter (\<lambda>p. ii_product_id ii = p_id p) (map g ps))
                      else []) xs) =
        map (\<lambda>(ii, p). (ii, g p))
          (concat (map (\<lambda>ii. if ii_invoice_id ii = k
                      then map (Pair ii) (filter (\<lambda>p. ii_product_id ii = p_id p) ps)
                      else []) xs))"
    for xs :: "invoice_items_row list" and ps :: "products_row list"
    by (induction xs) (simp_all add: inner)
  have pc: "products (change_product s pid name price) = map g (products s)"
    and ic: "invoice_items (change_product s pid name price) = invoice_items s"
    by (simp_all add: change_product_def g_def)
  have "select_items_with_product (change_product s pid name price) k =
      map (\<lambda>(ii, p). (ii, g p)) (select_items_with_product s k)"
    unfolding select_items_with_product_eq pc ic by (rule gen)
  then show ?thesis unfolding g_def .
qed

lemma build_items_renamed:
  assumes "\<And>ii p. (ii, p) \<in> set rows \<Longrightarrow> ii_product_id ii = p_id p"
  shows "build_items
           (map (\<lambda>(ii, p). (ii, if p_id p = pid then p\<lparr>p_name := name, p_price := price\<rparr> else p)) rows)
           [] 0 =
         (map (\<lambda>ri. if item_product_id ri = pid then ri\<lparr>item_product_name := name\<rparr> else ri)
            (fst (build_items rows [] 0)),
          snd (build_items rows [] 0))"
proof -
  define F :: "invoice_items_row \<times> products_row \<Rightarrow> InvoiceItemResponse" where
    "F = (\<lambda>(ii, p). \<lparr>item_id = ii_id ii, item_product_id = ii_product_id ii,
                          item_product_name = p_name p, item_quantity = ii_quantity ii,
                          item_unit_price = ii_unit_price ii,
                          item_subtotal = ii_unit_price ii * of_int (ii_quantity ii)\<rparr>)"
  define A :: "invoice_items_row \<times> products_row \<Rightarrow> rat" where
    "A = (\<lambda>(ii, p). ii_unit_price ii * of_int (ii_quantity ii))"
  define G :: "invoice_items_row \<times> products_row \<Rightarrow> invoice_items_row \<times> products_row" where
    "G = (\<lambda>(ii, p). (ii, if p_id p = pid then p\<lparr>p_name := name, p_price := price\<rparr> else p))"
  define rename :: "InvoiceItemResponse \<Rightarrow> InvoiceItemResponse" where
    "rename = (\<lambda>ri. if item_product_id ri = pid then ri\<lparr>item_product_name := name\<rparr> else ri)"
  have 1: "F (G x) = rename (F x)" if "x \<in> set rows" for x
  proof (cases x)
    case (Pair ii p)
    with that assms have "ii_product_id ii = p_id p" by simp
    with Pair show ?thesis by (simp add: F_def G_def rename_def)
  qed
  have 2: "A (G x) = A x" for x by (cases x) (simp add: A_def G_def)
  have m1: "map F (map G rows) = map rename (map F rows)"
    using 1 by (simp add: comp_def cong: map_cong)
  have m2: "map A (map G rows) = map A rows"
    using 2 by (simp add: comp_def)
  have "build_items (map G rows) [] 0 = (map rename (fst (build_items rows [] 0)), snd (build_items rows [] 0))"
    unfolding build_items_eq F_def [symmetric] A_def [symmetric]
    by (simp only: m1 m2 fst_conv snd_conv append_Nil)
  then show ?thesis by (simp only: G_def rename_def)
qed

lemma get_invoice_change_product:
  assumes "get_invoice s k = Inr r"
  shows "get_invoice (change_product s pid name price) k =
         Inr (r\<lparr>r_items := map (\<lambda>ri. if item_product_id ri = pid
                                      then ri\<lparr>item_product_name := name\<rparr> else ri) (r_items r)\<rparr>)"
proof -
  have sel: "select_invoice_with_client (change_product s pid name price) k =
             select_invoice_with_client s k"
    by (simp add: select_invoice_with_client_def change_product_def)
  have b: "build_items (select_items_with_product (change_product s pid name price) k) [] 0 =
         (map (\<lambda>ri. if item_product_id ri = pid then ri\<lparr>item_product_name := name\<rparr> else ri)
            (fst (build_items (select_items_with_product s k) [] 0)),
          snd (build_items (select_items_with_product s k) [] 0))"
    unfolding select_items_with_product_change
    by (rule build_items_renamed) (rule select_items_with_product_key)
  obtain its subtotal where bi: "build_items (select_items_with_product s k) [] 0 = (its, subtotal)"
    by (cases "build_items (select_items_with_product s k) [] 0")
  from assms have k: "sql_int k" by (rule get_invoice_sql_int)
  show ?thesis
    using assms
    by (auto simp: get_invoice_in_range [OF k] sel b bi Let_def split: list.splits)
qed


lemma create_invoice_Inr_pre:
  assumes "create_invoice s invoice now = (Inr r, s')"
  shows "client_id invoice \<in> set (map c_id (clients s))"
    and "invoice_no invoice \<notin> set (map i_invoice_no (invoices s))"
    and "list_all (\<lambda>item. product_id item \<in> set (map p_id (products s))) (items invoice)"
    and "list_all (\<lambda>item. sql_int (quantity item)) (items invoice)"
    and "sql_int (next_rowid (map i_id (invoices s)))"
proof -
  from assms have b: "create_invoice_body s invoice now = (Inr r, s')"
    by (auto simp: create_invoice_def with_get_db_def split: prod.splits sum.splits)
  then have cr: "sql_int (client_id invoice)"
    by (auto simp: create_invoice_body_def split: if_splits)
  with b have c: "find (\<lambda>c. c_id c = client_id invoice) (clients s) \<noteq> None"
    by (auto simp: create_invoice_body_def split: if_splits)
  then show "client_id invoice \<in> set (map c_id (clients s))" by (rule find_id_Some_rev)
  from b cr c have n: "find (\<lambda>i. i_invoice_no i = invoice_no invoice) (invoices s) = None"
    by (auto simp: create_invoice_body_def split: if_splits)
  then show "invoice_no invoice \<notin> set (map i_invoice_no (invoices s))" by (rule find_id_None_rev)
  from b cr c n obtain res where v: "validate_items s (items invoice) 0 [] = Inr res"
    by (auto simp: create_invoice_body_def split: if_splits sum.splits)
  from validate_items_Inr_all [OF v]
  show "list_all (\<lambda>item. product_id item \<in> set (map p_id (products s))) (items invoice)"
    by (simp add: list_all_iff)
  define k where "k = next_rowid (map i_id (invoices s))"
  obtain subtotal validated where res: "res = (subtotal, validated)" by (cases res)
  from b cr c n v res obtain s1 u s2 where
    ins: "insert_items s1 k (items invoice) = (Inr u, s2)" and get: "get_invoice s2 k = Inr r"
    unfolding create_invoice_body_def k_def
    by (auto simp: Let_def split: prod.splits sum.splits)
  from ins show "list_all (\<lambda>item. sql_int (quantity item)) (items invoice)"
    by (rule insert_items_Inr_all)
  from get have "sql_int k" by (rule get_invoice_sql_int)
  then show "sql_int (next_rowid (map i_id (invoices s)))" by (simp add: k_def)
qed

lemma create_invoice_items:
  assumes wf: "wf_db s"
    and cr: "create_invoice s invoice now = (Inr r, s')"
  shows "list_all2 (\<lambda>ri item. item_product_id ri = product_id item \<and>
                      map_option p_price (select_product s (product_id item)) =
                        Some (item_unit_price ri))
           (r_items r) (items invoice)"
proof -
  note pre = create_invoice_Inr_pre [OF cr]
  from create_invoice_totals_aux [OF wf pre, of now] cr
  show ?thesis by (auto elim!: list_all2_mono)
qed

section \<open>Unit prices are snapshots\<close>

text \<open>
  Claim C9. The unit price of every item of a created invoice is the price its product had
  when the invoice was created. When a product's name and price are changed afterwards, the
  stored item rows and invoice rows (unit prices and total) stay as they were, and
  \<open>get_invoice\<close> returns the same response as at creation except that items of the changed
  product show its new name; unit prices, subtotals, tax amount and total are unchanged.
\<close>

theorem unit_price_is_snapshot:
  assumes wf: "wf_db s"
    and cr: "create_invoice s invoice now = (Inr r, s1)"
  shows "list_all2 (\<lambda>ri item. item_product_id ri = product_id item \<and>
                      map_option p_price (select_product s (product_id item)) =
                        Some (item_unit_price ri))
           (r_items r) (items invoice) \<and>
         invoice_items (change_product s1 pid name price) = invoice_items s1 \<and>
         invoices (change_product s1 pid name price) = invoices s1 \<and>
         get_invoice (change_product s1 pid name price) (r_id r) =
           Inr (r\<lparr>r_items := map (\<lambda>ri. if item_product_id ri = pid
                                        then ri\<lparr>item_product_name := name\<rparr> else ri)
                                 (r_items r)\<rparr>)"
proof -
  from cr have get: "get_invoice s1 (r_id r) = Inr r" by (rule create_invoice_returns_get)
  have changed: "get_invoice (change_product s1 pid name price) (r_id r) =
           Inr (r\<lparr>r_items := map (\<lambda>ri. if item_product_id ri = pid
                                        then ri\<lparr>item_product_name := name\<rparr> else ri)
                                 (r_items r)\<rparr>)"
    using get by (rule get_invoice_change_product)
  have tables: "invoice_items (change_product s1 pid name price) = invoice_items s1"
    "invoices (change_product s1 pid name price) = invoices s1"
    by (simp_all add: change_product_def)
  have snap: "list_all2 (\<lambda>ri item. item_product_id ri = product_id item \<and>
                      map_option p_price (select_product s (product_id item)) =
                        Some (item_unit_price ri))
           (r_items r) (items invoice)"
    using wf cr by (rule create_invoice_items)
  from snap tables changed show ?thesis by simp
qed


theorem unit_price_is_snapshot_witness:
  "wf_db ex_db \<and> create_invoice ex_db ex_invoice 5 = (Inr ex_response, ex_db1) \<and>
   map p_price (products (change_product ex_db1 1 ''Gizmo'' 99)) = [99] \<and>
   invoice_items (change_product ex_db1 1 ''Gizmo'' 99) = invoice_items ex_db1 \<and>
   invoices (change_product ex_db1 1 ''Gizmo'' 99) = invoices ex_db1 \<and>
   get_invoice (change_product ex_db1 1 ''Gizmo'' 99) 1 =
     Inr (ex_response\<lparr>r_items :=
            [\<lparr>item_id = 1, item_product_id = 1, item_product_name = ''Gizmo'',
              item_quantity = 3, item_unit_price = 10, item_subtotal = 30\<rparr>]\<rparr>)"
proof -
  have h1: "wf_db ex_db" by (simp add: wf_db_def sql_int_def ex_defs)
  have h2: "create_invoice ex_db ex_invoice 5 = (Inr ex_response, ex_db1)"
    by (simp add: ex_defs eval_defs)
  have p: "map p_price (products (change_product ex_db1 1 ''Gizmo'' 99)) = [99]"
    by (simp add: change_product_def ex_defs)
  have r: "r_id ex_response = 1"
    "map (\<lambda>ri. if item_product_id ri = 1 then ri\<lparr>item_product_name := ''Gizmo''\<rparr> else ri)
       (r_items ex_response) =
     [\<lparr>item_id = 1, item_product_id = 1, item_product_name = ''Gizmo'',
       item_quantity = 3, item_unit_price = 10, item_subtotal = 30\<rparr>]"
    by (simp_all add: ex_defs)
  from unit_price_is_snapshot [OF h1 h2, of 1 "''Gizmo''" 99]
  have "invoice_items (change_product ex_db1 1 ''Gizmo'' 99) = invoice_items ex_db1 \<and>
        invoices (change_product ex_db1 1 ''Gizmo'' 99) = invoices ex_db1 \<and>
        get_invoice (change_product ex_db1 1 ''Gizmo'' 99) 1 =
          Inr (ex_response\<lparr>r_items :=
            [\<lparr>item_id = 1, item_product_id = 1, item_product_name = ''Gizmo'',
              item_quantity = 3, item_unit_price = 10, item_subtotal = 30\<rparr>]\<rparr>)"
    by (simp only: r)
  with h1 h2 p show ?thesis by simp
qed

section \<open>Listing invoices\<close>



















end
